theory Spec2Isabelle
  imports Main "HOL-Library.Word" "HOL-Library.Signed_Division"
begin

unbundle bit_operations_syntax

section \<open>Data model of the OTA engine (lib/edgehog_device/ota.c)\<close>

text \<open>
  The unified result code \<open>edgehog_result_t\<close>. Its declaration is in a header that is
  not part of the sources at hand; the constructors are the codes that ota.c names.
\<close>

datatype edgehog_result =
    EDGEHOG_RESULT_OK
  | EDGEHOG_RESULT_INTERNAL_ERROR
  | EDGEHOG_RESULT_OUT_OF_MEMORY
  | EDGEHOG_RESULT_NETWORK_ERROR
  | EDGEHOG_RESULT_HTTP_REQUEST_ERROR
  | EDGEHOG_RESULT_THREAD_CREATE_ERROR
  | EDGEHOG_RESULT_SETTINGS_INIT_FAIL
  | EDGEHOG_RESULT_SETTINGS_SAVE_FAIL
  | EDGEHOG_RESULT_SETTINGS_LOAD_FAIL
  | EDGEHOG_RESULT_SETTINGS_DELETE_FAIL
  | EDGEHOG_RESULT_OTA_INVALID_REQUEST
  | EDGEHOG_RESULT_OTA_ALREADY_IN_PROGRESS
  | EDGEHOG_RESULT_OTA_INVALID_IMAGE
  | EDGEHOG_RESULT_OTA_SYSTEM_ROLLBACK
  | EDGEHOG_RESULT_OTA_CANCELED
  | EDGEHOG_RESULT_OTA_INTERNAL_ERROR
  | EDGEHOG_RESULT_OTA_SWAP_FAIL
  | EDGEHOG_RESULT_OTA_ERASE_SECOND_SLOT_ERROR
  | EDGEHOG_RESULT_OTA_INIT_FLASH_ERROR
  | EDGEHOG_RESULT_OTA_WRITE_FLASH_ERROR

text \<open>\<open>ota_event_t\<close>: the event codes streamed to the server.\<close>

datatype ota_event_t =
    OTA_EVENT_ACKNOWLEDGED
  | OTA_EVENT_DOWNLOADING
  | OTA_EVENT_DEPLOYING
  | OTA_EVENT_DEPLOYED
  | OTA_EVENT_REBOOTING
  | OTA_EVENT_SUCCESS
  | OTA_EVENT_ERROR
  | OTA_EVENT_FAILURE

text \<open>\<open>ota_state_t\<close>, stored in settings as one byte.\<close>

abbreviation OTA_STATE_IDLE :: "8 word" where "OTA_STATE_IDLE \<equiv> 1"
abbreviation OTA_STATE_IN_PROGRESS :: "8 word" where "OTA_STATE_IN_PROGRESS \<equiv> 2"
abbreviation OTA_STATE_REBOOT :: "8 word" where "OTA_STATE_REBOOT \<equiv> 3"

abbreviation MAX_OTA_RETRY :: nat where "MAX_OTA_RETRY \<equiv> 5"
abbreviation OTA_REQ_TIMEOUT_MS :: nat where "OTA_REQ_TIMEOUT_MS \<equiv> 60 * 1000"
abbreviation OTA_ATTEMPS_DELAY_MS :: nat where "OTA_ATTEMPS_DELAY_MS \<equiv> 2000"
abbreviation OTA_STATE_RUN_BIT :: nat where "OTA_STATE_RUN_BIT \<equiv> 1"
abbreviation OTA_KEY :: string where "OTA_KEY \<equiv> ''ota''"
abbreviation OTA_STATE_KEY :: string where "OTA_STATE_KEY \<equiv> ''state''"
abbreviation OTA_REQUEST_ID_KEY :: string where "OTA_REQUEST_ID_KEY \<equiv> ''req_id''"

text \<open>
  \<open>ASTARTE_UUID_STR_LEN\<close> comes from the Astarte SDK; the specification fixes the
  request identifier at 36 characters.
\<close>

abbreviation ASTARTE_UUID_STR_LEN :: nat where "ASTARTE_UUID_STR_LEN \<equiv> 36"

text \<open>
  \<open>BOOT_SWAP_TYPE_NONE\<close> of the bootloader interface; \<open>mcuboot_swap_type\<close> returns an
  \<open>int\<close>.
\<close>

abbreviation BOOT_SWAP_TYPE_NONE :: int where "BOOT_SWAP_TYPE_NONE \<equiv> 1"

text \<open>
  \<open>ota_settings_t\<close>: the destination that \<open>ota_settings_loader\<close> fills. The \<open>uuid\<close>
  array is read as the C string it holds (what \<open>strlen\<close> sees).
\<close>

record ota_settings =
  uuid :: string
  ota_state :: "8 word"

text \<open>
  \<open>ota_request_t\<close>: two \<open>char *\<close>; \<open>None\<close> is the NULL pointer. \<open>free\<close> leaves the
  pointer variable as it is; no code reads it again before the next Update resets it.
\<close>

record ota_request =
  uuid :: "string option"
  download_url :: "string option"

text \<open>
  One chunk handed to the download callback (\<open>http_download_chunk_t\<close>):
  \<open>download_size\<close> is the total size declared by the response.
\<close>

record http_download_chunk =
  chunk_size :: "32 word"
  download_size :: "32 word"
  last_chunk :: bool

text \<open>
  Modelled from the spec: the flash image writer (\<open>struct flash_img_context\<close> and
  \<open>flash_img_init\<close>, \<open>flash_img_buffered_write\<close>, \<open>flash_img_bytes_written\<close>), which
  is not part of the sources. The spec says: \<open>init(ctx)\<close> prepares a streaming writer at
  bank start; \<open>write(ctx, buf, last)\<close> appends \<open>buf\<close>; \<open>bytes_written(ctx)\<close> returns the
  cumulative byte count successfully written. The return codes are the environment's.
\<close>

record flash_img_context =
  bytes_written :: "32 word"

definition flash_img_init :: "int \<Rightarrow> flash_img_context \<Rightarrow> flash_img_context" where
  "flash_img_init err ctx = (if err = 0 then ctx\<lparr>bytes_written := 0\<rparr> else ctx)"

definition flash_img_buffered_write ::
  "int \<Rightarrow> flash_img_context \<Rightarrow> 32 word \<Rightarrow> flash_img_context" where
  "flash_img_buffered_write ret ctx len =
     (if ret < 0 then ctx else ctx\<lparr>bytes_written := bytes_written ctx + len\<rparr>)"

definition flash_img_bytes_written :: "flash_img_context \<Rightarrow> 32 word" where
  "flash_img_bytes_written ctx = bytes_written ctx"

text \<open>
  \<open>ota_thread_data_t\<close>: the worker's state inside the device handle. \<open>size_t\<close> and
  \<open>atomic_t\<close> are 32 bits wide (a 32-bit target), \<open>last_perc_sent\<close> is a C \<open>int\<close>.
\<close>

record ota_thread_data =
  ota_run_state :: "32 word"
  download_size :: "32 word"
  image_size :: "32 word"
  last_perc_sent :: int
  flash_ctx :: flash_img_context
  ota_request :: ota_request

text \<open>\<open>memset(ota_thread_data, 0, sizeof(ota_thread_data_t))\<close>.\<close>

definition zeroed_thread_data :: ota_thread_data where
  "zeroed_thread_data =
     \<lparr>ota_run_state = 0, download_size = 0, image_size = 0, last_perc_sent = 0,
      flash_ctx = \<lparr>bytes_written = 0\<rparr>,
      ota_request = \<lparr>ota_request.uuid = None, download_url = None\<rparr>\<rparr>"

text \<open>Zephyr's atomic bit operations on an \<open>atomic_t\<close>.\<close>

definition atomic_test_bit :: "32 word \<Rightarrow> nat \<Rightarrow> bool" where
  "atomic_test_bit target b = bit target b"

definition atomic_clear_bit :: "32 word \<Rightarrow> nat \<Rightarrow> 32 word" where
  "atomic_clear_bit target b = unset_bit b target"

definition atomic_test_and_set_bit :: "32 word \<Rightarrow> nat \<Rightarrow> bool \<times> 32 word" where
  "atomic_test_and_set_bit target b = (bit target b, set_bit b target)"

definition atomic_test_and_clear_bit :: "32 word \<Rightarrow> nat \<Rightarrow> bool \<times> 32 word" where
  "atomic_test_and_clear_bit target b = (bit target b, unset_bit b target)"

section \<open>Observable actions\<close>

text \<open>
  The object that \<open>pub_ota_event\<close> streams on \<open>OTAEvent/event\<close> (the timestamp is
  left out).
\<close>

record ota_event_msg =
  requestUUID :: "string option"
  status :: string
  statusProgress :: int
  statusCode :: string
  message :: string

text \<open>
  What a settings save is given: the state byte, or \<open>n\<close> bytes starting at a string
  pointer.
\<close>

datatype settings_value = U8 "8 word" | Buf "string option" nat

text \<open>
  Every call that leaves the engine is recorded, in program order. The functions below
  return the list of actions they performed; the results of the calls are supplied by
  the environment as arguments. \<open>CancelReturn\<close> records what a Cancel command, handled
  on the telemetry task while the worker is suspended, returned to its caller.
\<close>

datatype action =
    Publish ota_event_msg
  | SettingsInit
  | SettingsLoad string
  | SettingsSave string string settings_value
  | SettingsDelete string string
  | McubootSwapType
  | BootIsImgConfirmed
  | BootWriteImgConfirmed
  | BootEraseImgBank
  | FlashImgInit
  | FlashImgBufferedWrite "32 word" bool
  | HttpDownload "string option" nat
  | HttpDownloadAbort int
  | ThreadCreate
  | Sleep nat
  | BootReadBankHeader
  | BootRequestUpgrade
  | SysReboot
  | CancelReturn edgehog_result

section \<open>pub_ota_event\<close>

fun status_of :: "ota_event_t \<Rightarrow> string" where
  "status_of OTA_EVENT_ACKNOWLEDGED = ''Acknowledged''"
| "status_of OTA_EVENT_DOWNLOADING = ''Downloading''"
| "status_of OTA_EVENT_DEPLOYING = ''Deploying''"
| "status_of OTA_EVENT_DEPLOYED = ''Deployed''"
| "status_of OTA_EVENT_REBOOTING = ''Rebooting''"
| "status_of OTA_EVENT_SUCCESS = ''Success''"
| "status_of OTA_EVENT_FAILURE = ''Failure''"
| "status_of OTA_EVENT_ERROR = ''Error''"

fun status_code_of :: "edgehog_result \<Rightarrow> string" where
  "status_code_of EDGEHOG_RESULT_OK = ''''"
| "status_code_of EDGEHOG_RESULT_OTA_INVALID_REQUEST = ''InvalidRequest''"
| "status_code_of EDGEHOG_RESULT_OTA_ALREADY_IN_PROGRESS = ''UpdateAlreadyInProgress''"
| "status_code_of EDGEHOG_RESULT_NETWORK_ERROR = ''ErrorNetwork''"
| "status_code_of EDGEHOG_RESULT_SETTINGS_INIT_FAIL = ''IOError''"
| "status_code_of EDGEHOG_RESULT_SETTINGS_SAVE_FAIL = ''IOError''"
| "status_code_of EDGEHOG_RESULT_SETTINGS_LOAD_FAIL = ''IOError''"
| "status_code_of EDGEHOG_RESULT_SETTINGS_DELETE_FAIL = ''IOError''"
| "status_code_of EDGEHOG_RESULT_OTA_INVALID_IMAGE = ''InvalidBaseImage''"
| "status_code_of EDGEHOG_RESULT_OTA_SYSTEM_ROLLBACK = ''SystemRollback''"
| "status_code_of EDGEHOG_RESULT_OTA_CANCELED = ''Canceled''"
| "status_code_of _ = ''InternalError''"

definition pub_ota_event ::
  "string option \<Rightarrow> ota_event_t \<Rightarrow> int \<Rightarrow> edgehog_result \<Rightarrow> string \<Rightarrow> action" where
  "pub_ota_event request_uuid event status_progress error msg =
     Publish \<lparr>requestUUID = request_uuid, status = status_of event,
              statusProgress = status_progress, statusCode = status_code_of error,
              message = msg\<rparr>"

section \<open>edgehog_ota_init: boot-time reconciliation\<close>

text \<open>
  What the environment answers during \<open>edgehog_ota_init\<close>: the result of
  \<open>edgehog_settings_load\<close> and the \<open>ota_settings_t\<close> the loader left behind, the swap
  type, whether the image is confirmed, and the return code of
  \<open>boot_write_img_confirmed\<close>.
\<close>

record init_env =
  load_res :: edgehog_result
  loaded :: ota_settings
  swap_type :: int
  img_confirmed :: bool
  confirm_ret :: int

text \<open>The label \<open>end\<close>: delete the request id, save state IDLE.\<close>

definition ota_init_end :: "action list" where
  "ota_init_end =
     [SettingsDelete OTA_KEY OTA_REQUEST_ID_KEY,
      SettingsSave OTA_KEY OTA_STATE_KEY (U8 OTA_STATE_IDLE)]"

text \<open>
  \<open>edgehog_ota_init\<close>. The first argument says whether \<open>edgehog_dev\<close> is non-NULL; the
  thread data inside the handle is cleared by the \<open>memset\<close> of \<open>ota_thread\<close>.
\<close>

definition edgehog_ota_init ::
  "bool \<Rightarrow> init_env \<Rightarrow> ota_thread_data \<Rightarrow> ota_thread_data \<times> action list" where
  "edgehog_ota_init edgehog_dev env d =
     (if \<not> edgehog_dev then (d, [])
      else if load_res env \<noteq> EDGEHOG_RESULT_OK then
        (zeroed_thread_data, [SettingsLoad ''ota''])
      else if length (ota_settings.uuid (loaded env)) \<noteq> ASTARTE_UUID_STR_LEN then
        (zeroed_thread_data, [SettingsLoad ''ota''] @ ota_init_end)
      else if ota_state (loaded env) \<noteq> OTA_STATE_REBOOT then
        (zeroed_thread_data,
         [SettingsLoad ''ota'',
          pub_ota_event (Some (ota_settings.uuid (loaded env))) OTA_EVENT_FAILURE 0
            EDGEHOG_RESULT_OTA_INTERNAL_ERROR ''''] @ ota_init_end)
      else if swap_type env \<noteq> BOOT_SWAP_TYPE_NONE then
        (zeroed_thread_data,
         [SettingsLoad ''ota'', McubootSwapType,
          pub_ota_event (Some (ota_settings.uuid (loaded env))) OTA_EVENT_FAILURE 0
            EDGEHOG_RESULT_OTA_SWAP_FAIL ''''] @ ota_init_end)
      else if img_confirmed env then
        (zeroed_thread_data,
         [SettingsLoad ''ota'', McubootSwapType, BootIsImgConfirmed,
          pub_ota_event (Some (ota_settings.uuid (loaded env))) OTA_EVENT_FAILURE 0
            EDGEHOG_RESULT_OTA_SWAP_FAIL ''''] @ ota_init_end)
      else if confirm_ret env < 0 then
        (zeroed_thread_data,
         [SettingsLoad ''ota'', McubootSwapType, BootIsImgConfirmed, BootWriteImgConfirmed,
          pub_ota_event (Some (ota_settings.uuid (loaded env))) OTA_EVENT_FAILURE 0
            EDGEHOG_RESULT_OTA_INTERNAL_ERROR ''''] @ ota_init_end)
      else
        (zeroed_thread_data,
         [SettingsLoad ''ota'', McubootSwapType, BootIsImgConfirmed, BootWriteImgConfirmed,
          pub_ota_event (Some (ota_settings.uuid (loaded env))) OTA_EVENT_SUCCESS 0
            EDGEHOG_RESULT_OK ''''] @ ota_init_end))"

text \<open>The actions that change the persisted record.\<close>

fun is_settings_write :: "action \<Rightarrow> bool" where
  "is_settings_write (SettingsSave _ _ _) = True"
| "is_settings_write (SettingsDelete _ _) = True"
| "is_settings_write _ = False"

section \<open>edgehog_ota_event_cancel\<close>

text \<open>
  The environment's answers to a Cancel command: the results of
  \<open>edgehog_settings_init\<close> and \<open>edgehog_settings_load\<close>, and the \<open>ota_settings_t\<close> the
  loader left behind.
\<close>

record cancel_env =
  cancel_init_res :: edgehog_result
  cancel_load_res :: edgehog_result
  cancel_loaded :: ota_settings

definition edgehog_ota_event_cancel ::
  "string option \<Rightarrow> cancel_env \<Rightarrow> ota_thread_data
     \<Rightarrow> edgehog_result \<times> ota_thread_data \<times> action list" where
  "edgehog_ota_event_cancel request_uuid env d =
     (if \<not> atomic_test_bit (ota_run_state d) OTA_STATE_RUN_BIT then
        (EDGEHOG_RESULT_OTA_INVALID_REQUEST, d,
         [pub_ota_event request_uuid OTA_EVENT_FAILURE 0 EDGEHOG_RESULT_OTA_INVALID_REQUEST
            ''Unable to cancel OTA update request, no OTA update running.''])
      else if cancel_init_res env \<noteq> EDGEHOG_RESULT_OK then
        (EDGEHOG_RESULT_OTA_INTERNAL_ERROR, d,
         [SettingsInit,
          pub_ota_event request_uuid OTA_EVENT_FAILURE 0 EDGEHOG_RESULT_OTA_INTERNAL_ERROR
            ''Unable to cancel OTA update request, Edgeghog Settings init error.''])
      else if cancel_load_res env \<noteq> EDGEHOG_RESULT_OK then
        (EDGEHOG_RESULT_OTA_INTERNAL_ERROR, d,
         [SettingsInit, SettingsLoad ''ota'',
          pub_ota_event request_uuid OTA_EVENT_FAILURE 0 EDGEHOG_RESULT_OTA_INTERNAL_ERROR
            ''Unable to cancel OTA update request, Edgeghog Settings load error.''])
      else if length (ota_settings.uuid (cancel_loaded env)) \<noteq> ASTARTE_UUID_STR_LEN then
        (EDGEHOG_RESULT_OTA_INTERNAL_ERROR, d,
         [SettingsInit, SettingsLoad ''ota'',
          pub_ota_event request_uuid OTA_EVENT_FAILURE 0 EDGEHOG_RESULT_OTA_INTERNAL_ERROR
            ''Unable to cancel OTA update request, Edgehog Settings error.''])
      else
        (EDGEHOG_RESULT_OK,
         d\<lparr>ota_run_state :=
              snd (atomic_test_and_clear_bit (ota_run_state d) OTA_STATE_RUN_BIT)\<rparr>,
         [SettingsInit, SettingsLoad ''ota'']))"

text \<open>
  Cancel commands that the telemetry task handles while the worker is suspended (in a
  sleep or inside the download), each with the environment's answers. Their actions are
  recorded where they happen, followed by what the handler returned.
\<close>

type_synonym cancel_cmd = "string option \<times> cancel_env"

fun run_cancels :: "cancel_cmd list \<Rightarrow> ota_thread_data \<Rightarrow> ota_thread_data \<times> action list" where
  "run_cancels [] d = (d, [])"
| "run_cancels ((request_uuid, cenv) # cs) d =
     (let (r, d1, t1) = edgehog_ota_event_cancel request_uuid cenv d;
          (d2, t2) = run_cancels cs d1
      in (d2, t1 @ [CancelReturn r] @ t2))"

section \<open>http_download_payload_cbk: the download sink\<close>

abbreviation OTA_PROGRESS_PERC :: "32 word" where "OTA_PROGRESS_PERC \<equiv> 100"
abbreviation OTA_PROGRESS_PERC_ROUNDING_STEP :: int where
  "OTA_PROGRESS_PERC_ROUNDING_STEP \<equiv> 10"

text \<open>
  The callback. \<open>download_chunk\<close> is \<open>None\<close> for a NULL chunk, \<open>user_data\<close> says whether
  the user data pointer (the device handle) is non-NULL, and \<open>write_ret\<close> is what
  \<open>flash_img_buffered_write\<close> returns for this chunk. The percentage is computed in
  \<open>size_t\<close> and cast to \<open>int\<close>; \<open>%\<close> truncates towards zero. A chunk that declares a
  total size of 0 makes the division trap: the result \<open>None\<close> says that the callback
  does not return.
\<close>

definition http_download_payload_cbk ::
  "int \<Rightarrow> http_download_chunk option \<Rightarrow> bool \<Rightarrow> int \<Rightarrow> ota_thread_data
     \<Rightarrow> edgehog_result option \<times> ota_thread_data \<times> action list" where
  "http_download_payload_cbk sock_id download_chunk user_data write_ret d =
     (case download_chunk of
        None \<Rightarrow> (Some EDGEHOG_RESULT_HTTP_REQUEST_ERROR, d, [])
      | Some c \<Rightarrow>
        if \<not> user_data then (Some EDGEHOG_RESULT_INTERNAL_ERROR, d, [])
        else if \<not> atomic_test_bit (ota_run_state d) OTA_STATE_RUN_BIT then
          (Some EDGEHOG_RESULT_OK, d, [HttpDownloadAbort sock_id])
        else if write_ret < 0 then
          (Some EDGEHOG_RESULT_OTA_WRITE_FLASH_ERROR,
           d\<lparr>flash_ctx := flash_img_buffered_write write_ret (flash_ctx d) (chunk_size c)\<rparr>,
           [FlashImgBufferedWrite (chunk_size c) (last_chunk c), HttpDownloadAbort sock_id])
        else
          let d1 = d\<lparr>flash_ctx :=
                       flash_img_buffered_write write_ret (flash_ctx d) (chunk_size c)\<rparr>;
              d2 = d1\<lparr>image_size := http_download_chunk.download_size c\<rparr>;
              d3 = d2\<lparr>download_size := flash_img_bytes_written (flash_ctx d2)\<rparr>
          in if http_download_chunk.download_size c = 0 then
               (None, d3, [FlashImgBufferedWrite (chunk_size c) (last_chunk c)])
             else
               let read_perc =
                     sint (OTA_PROGRESS_PERC * download_size d3
                             div http_download_chunk.download_size c);
                   read_perc_rounded =
                     read_perc - (read_perc smod OTA_PROGRESS_PERC_ROUNDING_STEP)
               in if read_perc_rounded \<noteq> last_perc_sent d3 then
                    (Some EDGEHOG_RESULT_OK, d3\<lparr>last_perc_sent := read_perc_rounded\<rparr>,
                     [FlashImgBufferedWrite (chunk_size c) (last_chunk c),
                      pub_ota_event (ota_request.uuid (ota_request d3)) OTA_EVENT_DOWNLOADING
                        read_perc_rounded EDGEHOG_RESULT_OK ''''])
                  else
                    (Some EDGEHOG_RESULT_OK, d3,
                     [FlashImgBufferedWrite (chunk_size c) (last_chunk c)]))"

section \<open>The HTTP downloader\<close>

text \<open>
  What happens during one download, in order: the downloader delivers a chunk (with the
  flash writer's return code for it), or a Cancel command is handled on the telemetry
  task while the worker waits on the socket.

  The dispatcher \<open>edgehog_ota_event\<close> hands Update commands to
  \<open>edgehog_ota_event_update\<close> on the same task. An Update that finds the run-bit set
  publishes Failure / UpdateAlreadyInProgress and leaves the thread data as it is, so it
  is no step of its own here. An Update that finds the run-bit cleared (after a Cancel)
  is admitted: it zeroes the thread data, sets the run-bit again and creates the
  thread anew while the cancelled worker may still be unwinding. Runs with such an
  Update are not described by a list of steps; what a property needs of them is stated
  on \<open>edgehog_ota_event_update\<close> and on the state in which a download returns.
\<close>

datatype http_step =
    Chunk http_download_chunk int
  | CancelCmd "string option" cancel_env

record download_env =
  sock :: int
  steps :: "http_step list"
  dl_result :: edgehog_result

text \<open>
  Modelled from the spec: \<open>edgehog_http_download\<close>, which is not part of the sources.
  The spec says: the sink is invoked zero or more times with the chunk and the total
  size, and must return OK to continue or any error to abort; the downloader accepts
  \<open>abort(socket_handle)\<close> from inside the sink and unwinds. So delivery stops after a
  callback that returned an error or aborted the socket. The downloader's own result is
  the environment's. The first component of \<open>http_deliver\<close> says whether every
  callback returned (no division trap).
\<close>

fun http_deliver ::
  "int \<Rightarrow> http_step list \<Rightarrow> ota_thread_data \<Rightarrow> bool \<times> ota_thread_data \<times> action list" where
  "http_deliver sock_id [] d = (True, d, [])"
| "http_deliver sock_id (CancelCmd request_uuid cenv # rest) d =
     (let (r, d1, t1) = edgehog_ota_event_cancel request_uuid cenv d;
          (returned, d2, t2) = http_deliver sock_id rest d1
      in (returned, d2, t1 @ [CancelReturn r] @ t2))"
| "http_deliver sock_id (Chunk c write_ret # rest) d =
     (let (r, d1, t1) = http_download_payload_cbk sock_id (Some c) True write_ret d
      in if r = None then (False, d1, t1)
         else if r \<noteq> Some EDGEHOG_RESULT_OK \<or> HttpDownloadAbort sock_id \<in> set t1 then
           (True, d1, t1)
         else
           let (returned, d2, t2) = http_deliver sock_id rest d1
           in (returned, d2, t1 @ t2))"

definition edgehog_http_download ::
  "string option \<Rightarrow> nat \<Rightarrow> download_env \<Rightarrow> ota_thread_data
     \<Rightarrow> edgehog_result option \<times> ota_thread_data \<times> action list" where
  "edgehog_http_download url timeout_ms env d =
     (let (returned, d1, t1) = http_deliver (sock env) (steps env) d
      in (if returned then Some (dl_result env) else None, d1,
          HttpDownload url timeout_ms # t1))"

section \<open>perform_ota_attempt and perform_ota\<close>

definition perform_ota_attempt ::
  "download_env \<Rightarrow> ota_thread_data
     \<Rightarrow> edgehog_result option \<times> ota_thread_data \<times> action list" where
  "perform_ota_attempt env d =
     (let (edgehog_result, d1, t1) =
            edgehog_http_download (download_url (ota_request d)) OTA_REQ_TIMEOUT_MS env d
      in case edgehog_result of
           None \<Rightarrow> (None, d1, t1)
         | Some res \<Rightarrow>
           if \<not> atomic_test_bit (ota_run_state d1) OTA_STATE_RUN_BIT then
             (Some EDGEHOG_RESULT_OTA_CANCELED, d1, t1)
           else if res \<noteq> EDGEHOG_RESULT_OK then (Some res, d1, t1)
           else
             let d2 = d1\<lparr>download_size := flash_img_bytes_written (flash_ctx d1)\<rparr>
             in if download_size d2 \<le> 0 \<or> download_size d2 \<noteq> image_size d2 then
                  (Some EDGEHOG_RESULT_NETWORK_ERROR, d2, t1)
                else (Some EDGEHOG_RESULT_OK, d2, t1))"

text \<open>
  The environment of \<open>perform_ota\<close>: the return codes of \<open>boot_erase_img_bank\<close> and
  \<open>flash_img_init\<close>, the result of saving the request id, what each attempt's download
  meets, and the Cancel commands handled during the back-off sleep after each attempt.
\<close>

record ota_env =
  erase_err :: int
  flash_init_err :: int
  save_req_id_res :: edgehog_result
  attempts :: "nat \<Rightarrow> download_env"
  backoff_cmds :: "nat \<Rightarrow> cancel_cmd list"

text \<open>
  The \<open>for\<close> loop of \<open>perform_ota\<close>, from the iteration with counter
  \<open>update_attempts\<close> on; \<open>edgehog_result\<close> is the variable's value on entry, returned
  when the counter has reached \<open>MAX_OTA_RETRY\<close>.
\<close>

function perform_ota_loop ::
  "ota_env \<Rightarrow> nat \<Rightarrow> edgehog_result \<Rightarrow> ota_thread_data
     \<Rightarrow> edgehog_result option \<times> ota_thread_data \<times> action list" where
  "perform_ota_loop env update_attempts edgehog_result d =
     (if update_attempts < MAX_OTA_RETRY then
        (case perform_ota_attempt (attempts env update_attempts) d of
           (None, d1, t1) \<Rightarrow>
             (None, d1,
              pub_ota_event (ota_request.uuid (ota_request d)) OTA_EVENT_DOWNLOADING 0
                EDGEHOG_RESULT_OK '''' # t1)
         | (Some res, d1, t1) \<Rightarrow>
             if res = EDGEHOG_RESULT_OK \<or> res = EDGEHOG_RESULT_OTA_CANCELED then
               (Some res, d1,
                pub_ota_event (ota_request.uuid (ota_request d)) OTA_EVENT_DOWNLOADING 0
                  EDGEHOG_RESULT_OK '''' # t1)
             else
               (case run_cancels (backoff_cmds env update_attempts) d1 of
                  (d2, t2) \<Rightarrow>
                    (case perform_ota_loop env (Suc update_attempts) res d2 of
                       (r, d3, t3) \<Rightarrow>
                         (r, d3,
                          pub_ota_event (ota_request.uuid (ota_request d))
                            OTA_EVENT_DOWNLOADING 0 EDGEHOG_RESULT_OK '''' # t1
                          @ [Sleep (update_attempts * OTA_ATTEMPS_DELAY_MS)] @ t2
                          @ [pub_ota_event (ota_request.uuid (ota_request d2))
                               OTA_EVENT_ERROR 0 res '''']
                          @ t3))))
      else (Some edgehog_result, d, []))"
  by pat_completeness auto
termination
  by (relation "measure (\<lambda>(env, update_attempts, edgehog_result, d).
                  MAX_OTA_RETRY - update_attempts)") auto

declare perform_ota_loop.simps [simp del]

definition perform_ota ::
  "ota_env \<Rightarrow> ota_thread_data \<Rightarrow> edgehog_result option \<times> ota_thread_data \<times> action list" where
  "perform_ota env d =
     (if erase_err env \<noteq> 0 then
        (Some EDGEHOG_RESULT_OTA_ERASE_SECOND_SLOT_ERROR, d, [BootEraseImgBank])
      else
        let d1 = d\<lparr>flash_ctx := flash_img_init (flash_init_err env) (flash_ctx d)\<rparr>
        in if flash_init_err env \<noteq> 0 then
             (Some EDGEHOG_RESULT_OTA_INIT_FLASH_ERROR, d1, [BootEraseImgBank, FlashImgInit])
           else if save_req_id_res env \<noteq> EDGEHOG_RESULT_OK then
             (Some (save_req_id_res env), d1,
              [BootEraseImgBank, FlashImgInit,
               SettingsSave OTA_KEY OTA_REQUEST_ID_KEY
                 (Buf (ota_request.uuid (ota_request d1)) (ASTARTE_UUID_STR_LEN + 1))])
           else
             (case perform_ota_loop env 0 (save_req_id_res env) d1 of
                (r, d2, t) \<Rightarrow>
                  (r, d2,
                   [BootEraseImgBank, FlashImgInit,
                    SettingsSave OTA_KEY OTA_REQUEST_ID_KEY
                      (Buf (ota_request.uuid (ota_request d1)) (ASTARTE_UUID_STR_LEN + 1))]
                   @ t)))"

section \<open>ota_thread_entry_point: the worker\<close>

record thread_env =
  thread_init_res :: edgehog_result
  ota :: ota_env
  hdr_err :: int
  upgrade_err :: int
  reboot_cmds :: "cancel_cmd list"

text \<open>The label \<open>selfdestruct\<close>.\<close>

definition selfdestruct :: "ota_thread_data \<Rightarrow> ota_thread_data \<times> action list" where
  "selfdestruct d =
     (d\<lparr>ota_run_state := atomic_clear_bit (ota_run_state d) OTA_STATE_RUN_BIT\<rparr>,
      [SettingsDelete OTA_KEY OTA_REQUEST_ID_KEY,
       SettingsSave OTA_KEY OTA_STATE_KEY (U8 OTA_STATE_IDLE)])"

text \<open>
  The worker. The first argument says whether the \<open>edgehog_device\<close> pointer is non-NULL.
  \<open>sys_reboot\<close> does not return, so the run ends with \<open>SysReboot\<close>; a division trap
  inside the download ends the run where it happens. \<open>reboot_cmds\<close> are the Cancel
  commands handled during the five seconds before the reboot.
\<close>

definition ota_thread_entry_point ::
  "bool \<Rightarrow> thread_env \<Rightarrow> ota_thread_data \<Rightarrow> ota_thread_data \<times> action list" where
  "ota_thread_entry_point edgehog_device env d =
     (if \<not> edgehog_device then (d, [])
      else
        let req_uuid = ota_request.uuid (ota_request d);
            t0 = [pub_ota_event req_uuid OTA_EVENT_ACKNOWLEDGED 0 EDGEHOG_RESULT_OK '''',
                  SettingsInit]
        in if thread_init_res env \<noteq> EDGEHOG_RESULT_OK then
             (case selfdestruct d of
                (d', ts) \<Rightarrow>
                  (d', t0 @ [pub_ota_event req_uuid OTA_EVENT_FAILURE 0
                               EDGEHOG_RESULT_SETTINGS_INIT_FAIL ''''] @ ts))
           else
             (case perform_ota (ota env) d of
                (None, d1, tp) \<Rightarrow>
                  (d1, t0 @ [SettingsSave OTA_KEY OTA_STATE_KEY (U8 OTA_STATE_IN_PROGRESS)]
                       @ tp)
              | (Some res, d1, tp) \<Rightarrow>
                  let t1 = t0 @ [SettingsSave OTA_KEY OTA_STATE_KEY (U8 OTA_STATE_IN_PROGRESS)]
                              @ tp
                  in if res = EDGEHOG_RESULT_OK then
                       let t2 = t1 @ [pub_ota_event req_uuid OTA_EVENT_DEPLOYING 0
                                        EDGEHOG_RESULT_OK '''',
                                      SettingsSave OTA_KEY OTA_STATE_KEY (U8 OTA_STATE_REBOOT),
                                      BootReadBankHeader]
                       in if hdr_err env \<noteq> 0 then
                            (case selfdestruct d1 of
                               (d', ts) \<Rightarrow>
                                 (d', t2 @ [pub_ota_event req_uuid OTA_EVENT_FAILURE 0
                                              EDGEHOG_RESULT_OTA_INTERNAL_ERROR ''''] @ ts))
                          else if upgrade_err env \<noteq> 0 then
                            (case selfdestruct d1 of
                               (d', ts) \<Rightarrow>
                                 (d', t2 @ [BootRequestUpgrade,
                                            pub_ota_event req_uuid OTA_EVENT_FAILURE 0
                                              EDGEHOG_RESULT_OTA_INTERNAL_ERROR ''''] @ ts))
                          else
                            (case run_cancels (reboot_cmds env) d1 of
                               (d2, tc) \<Rightarrow>
                                 (d2, t2 @ [BootRequestUpgrade,
                                            pub_ota_event req_uuid OTA_EVENT_DEPLOYED 0
                                              EDGEHOG_RESULT_OK '''',
                                            pub_ota_event req_uuid OTA_EVENT_REBOOTING 0
                                              EDGEHOG_RESULT_OK '''',
                                            Sleep 5000] @ tc @ [SysReboot]))
                     else
                       (case selfdestruct d1 of
                          (d', ts) \<Rightarrow>
                            (d', t1 @ [pub_ota_event req_uuid OTA_EVENT_FAILURE 0 res '''',
                                       SettingsSave OTA_KEY OTA_STATE_KEY (U8 OTA_STATE_IDLE)]
                                 @ ts))))"

section \<open>edgehog_ota_event_update\<close>

text \<open>
  The environment's answers to an Update command: whether each \<open>calloc\<close> returns memory
  and whether \<open>k_thread_create\<close> returns a thread. The request's two strings are passed
  as they are: the dispatcher, the only caller, has checked that both pointers are set.
  On success the worker has been created and runs \<open>ota_thread_entry_point\<close> on the
  returned thread data.
\<close>

record update_env =
  calloc_uuid_ok :: bool
  calloc_url_ok :: bool
  thread_create_ok :: bool

definition edgehog_ota_event_update ::
  "string \<Rightarrow> string \<Rightarrow> update_env \<Rightarrow> ota_thread_data
     \<Rightarrow> edgehog_result \<times> ota_thread_data \<times> action list" where
  "edgehog_ota_event_update req_uuid req_url env d =
     (if atomic_test_bit (ota_run_state d) OTA_STATE_RUN_BIT then
        (EDGEHOG_RESULT_OTA_ALREADY_IN_PROGRESS, d,
         [pub_ota_event (Some req_uuid) OTA_EVENT_FAILURE 0
            EDGEHOG_RESULT_OTA_ALREADY_IN_PROGRESS ''''])
      else
        let d0 = zeroed_thread_data
        in if \<not> calloc_uuid_ok env then (EDGEHOG_RESULT_OUT_OF_MEMORY, d0, [])
           else
             let d1 = d0\<lparr>ota_request := (ota_request d0)\<lparr>ota_request.uuid := Some req_uuid\<rparr>\<rparr>
             in if \<not> calloc_url_ok env then (EDGEHOG_RESULT_OUT_OF_MEMORY, d1, [])
                else
                  let d2 = d1\<lparr>ota_request := (ota_request d1)\<lparr>download_url := Some req_url\<rparr>\<rparr>;
                      (was_set, run_state) =
                        atomic_test_and_set_bit (ota_run_state d2) OTA_STATE_RUN_BIT;
                      d3 = d2\<lparr>ota_run_state := run_state\<rparr>
                  in if was_set then (EDGEHOG_RESULT_OUT_OF_MEMORY, d3, [])
                     else if \<not> thread_create_ok env then
                       (EDGEHOG_RESULT_THREAD_CREATE_ERROR, d3,
                        [ThreadCreate,
                         pub_ota_event (Some req_uuid) OTA_EVENT_FAILURE 0
                           EDGEHOG_RESULT_OTA_INTERNAL_ERROR ''''])
                     else (EDGEHOG_RESULT_OK, d3, [ThreadCreate]))"

section \<open>Observations used to state the properties\<close>

text \<open>The run-bit of the worker's state.\<close>

abbreviation running :: "ota_thread_data \<Rightarrow> bool" where
  "running d \<equiv> atomic_test_bit (ota_run_state d) OTA_STATE_RUN_BIT"

text \<open>
  The actions that can occur during one attempt: the download and what its callback
  does, and what a Cancel handler does meanwhile.
\<close>

fun attempt_action :: "action \<Rightarrow> bool" where
  "attempt_action (Publish m) = (status m = ''Downloading'' \<or> status m = ''Failure'')"
| "attempt_action SettingsInit = True"
| "attempt_action (SettingsLoad _) = True"
| "attempt_action (FlashImgBufferedWrite _ _) = True"
| "attempt_action (HttpDownload _ _) = True"
| "attempt_action (HttpDownloadAbort _) = True"
| "attempt_action (CancelReturn _) = True"
| "attempt_action _ = False"

text \<open>The worker's back-off: a sleep, or an Error event.\<close>

fun is_backoff :: "action \<Rightarrow> bool" where
  "is_backoff (Sleep _) = True"
| "is_backoff (Publish m) = (status m = ''Error'')"
| "is_backoff _ = False"

fun is_http_download :: "action \<Rightarrow> bool" where
  "is_http_download (HttpDownload _ _) = True"
| "is_http_download _ = False"

text \<open>Reading the secondary bank header and requesting the upgrade.\<close>

fun is_boot_commit :: "action \<Rightarrow> bool" where
  "is_boot_commit BootReadBankHeader = True"
| "is_boot_commit BootRequestUpgrade = True"
| "is_boot_commit _ = False"

text \<open>Erasing the secondary bank and initialising the flash writer.\<close>

fun is_flash_prepare :: "action \<Rightarrow> bool" where
  "is_flash_prepare BootEraseImgBank = True"
| "is_flash_prepare FlashImgInit = True"
| "is_flash_prepare _ = False"

text \<open>What the sink does to the outside when it accepts a chunk.\<close>

fun sink_effect :: "action \<Rightarrow> bool" where
  "sink_effect (FlashImgBufferedWrite _ _) = True"
| "sink_effect (Publish m) = (status m = ''Downloading'')"
| "sink_effect _ = False"

text \<open>
  The results that the successive calls of \<open>perform_ota_attempt\<close> return in the loop of
  \<open>perform_ota\<close>, from the iteration with counter \<open>update_attempts\<close> on. It follows the
  loop's own recursion and only collects the results.
\<close>

function attempt_results ::
  "ota_env \<Rightarrow> nat \<Rightarrow> ota_thread_data \<Rightarrow> edgehog_result option list" where
  "attempt_results env update_attempts d =
     (if update_attempts < MAX_OTA_RETRY then
        (case perform_ota_attempt (attempts env update_attempts) d of
           (None, d1, t1) \<Rightarrow> [None]
         | (Some res, d1, t1) \<Rightarrow>
             if res = EDGEHOG_RESULT_OK \<or> res = EDGEHOG_RESULT_OTA_CANCELED then [Some res]
             else Some res #
                  attempt_results env (Suc update_attempts)
                    (fst (run_cancels (backoff_cmds env update_attempts) d1)))
      else [])"
  by pat_completeness auto
termination
  by (relation "measure (\<lambda>(env, update_attempts, d). MAX_OTA_RETRY - update_attempts)") auto

declare attempt_results.simps [simp del]

text \<open>An attempt's result after which the loop goes on: an error other than cancellation.\<close>

fun retried :: "edgehog_result option \<Rightarrow> bool" where
  "retried None = False"
| "retried (Some res) = (res \<noteq> EDGEHOG_RESULT_OK \<and> res \<noteq> EDGEHOG_RESULT_OTA_CANCELED)"

text \<open>
  The retry policy in the specification's words: after each failed attempt other than
  a cancellation, sleep \<open>attempt_index * 2000\<close> ms, then emit an Error event with that
  attempt's status code; after OK or a cancellation, nothing.
\<close>

fun backoff_trace :: "string option \<Rightarrow> nat \<Rightarrow> edgehog_result option list \<Rightarrow> action list" where
  "backoff_trace u i [] = []"
| "backoff_trace u i (r # rs) =
     (case r of
        None \<Rightarrow> []
      | Some res \<Rightarrow>
          if res = EDGEHOG_RESULT_OK \<or> res = EDGEHOG_RESULT_OTA_CANCELED then []
          else [Sleep (i * 2000),
                Publish \<lparr>requestUUID = u, status = ''Error'', statusProgress = 0,
                         statusCode = status_code_of res, message = []\<rparr>])
     @ backoff_trace u (Suc i) rs"


text \<open>The \<open>statusProgress\<close> values of the Downloading events of a run, in order.\<close>

fun progress_of :: "action \<Rightarrow> int list" where
  "progress_of (Publish m) = (if status m = ''Downloading'' then [statusProgress m] else [])"
| "progress_of _ = []"

definition downloading_progress :: "action list \<Rightarrow> int list" where
  "downloading_progress t = concat (map progress_of t)"

text \<open>
  The bytes a download step delivers, and whether it declares the total size \<open>T\<close>.
\<close>

fun step_bytes :: "http_step \<Rightarrow> nat" where
  "step_bytes (Chunk c write_ret) = unat (chunk_size c)"
| "step_bytes (CancelCmd _ _) = 0"

fun declares :: "32 word \<Rightarrow> http_step \<Rightarrow> bool" where
  "declares T (Chunk c write_ret) = (http_download_chunk.download_size c = T)"
| "declares T (CancelCmd _ _) = True"

text \<open>
  The specification's formula for the reported percentage,
  \<open>floor(100 * download_size / image_size / 10) * 10\<close>, on unbounded numbers.
\<close>

definition rounded_percent :: "32 word \<Rightarrow> 32 word \<Rightarrow> int" where
  "rounded_percent b T = int (100 * unat b div unat T div 10 * 10)"

section \<open>Concrete scenarios\<close>

text \<open>
  A boot after a successful update: the record holds a request id and state REBOOT,
  the bootloader reports no pending swap and an unconfirmed image, and confirming works.
\<close>

definition boot_ok_env :: init_env where
  "boot_ok_env =
     \<lparr>load_res = EDGEHOG_RESULT_OK,
      loaded = \<lparr>ota_settings.uuid = ''11111111-1111-1111-1111-111111111111'',
                ota_state = OTA_STATE_REBOOT\<rparr>,
      swap_type = BOOT_SWAP_TYPE_NONE, img_confirmed = False, confirm_ret = 0\<rparr>"

text \<open>A boot with an empty record: the load succeeds and finds no request id.\<close>

definition boot_empty_env :: init_env where
  "boot_empty_env =
     \<lparr>load_res = EDGEHOG_RESULT_OK,
      loaded = \<lparr>ota_settings.uuid = [], ota_state = 0\<rparr>,
      swap_type = BOOT_SWAP_TYPE_NONE, img_confirmed = True, confirm_ret = 0\<rparr>"

text \<open>A request, and the worker's state as an admitted Update leaves it.\<close>

definition uuid_a :: string where "uuid_a = ''11111111-1111-1111-1111-111111111111''"
definition uuid_b :: string where "uuid_b = ''22222222-2222-2222-2222-222222222222''"
definition url_a :: string where "url_a = ''https://x/a.bin''"

definition worker_start :: ota_thread_data where
  "worker_start =
     \<lparr>ota_run_state = 2, download_size = 0, image_size = 0, last_perc_sent = 0,
      flash_ctx = \<lparr>bytes_written = 0\<rparr>,
      ota_request = \<lparr>ota_request.uuid = Some uuid_a, download_url = Some url_a\<rparr>\<rparr>"

definition no_cancels :: "nat \<Rightarrow> cancel_cmd list" where
  "no_cancels i = []"

text \<open>A download that fails before any chunk arrives (connection refused).\<close>

definition failed_download :: download_env where
  "failed_download = \<lparr>sock = 3, steps = [], dl_result = EDGEHOG_RESULT_NETWORK_ERROR\<rparr>"

text \<open>A download of a 1024-byte image in two chunks.\<close>

definition full_download :: download_env where
  "full_download =
     \<lparr>sock = 3,
      steps = [Chunk \<lparr>chunk_size = 512, download_size = 1024, last_chunk = False\<rparr> 0,
               Chunk \<lparr>chunk_size = 512, download_size = 1024, last_chunk = True\<rparr> 0],
      dl_result = EDGEHOG_RESULT_OK\<rparr>"

text \<open>
  A flaky network: the first download is reset after 256 of 1024 bytes, the second
  delivers the whole image, later ones fail at once.
\<close>

definition flaky_attempts :: "nat \<Rightarrow> download_env" where
  "flaky_attempts i =
     (if i = 0 then
        \<lparr>sock = 3,
         steps = [Chunk \<lparr>chunk_size = 256, download_size = 1024, last_chunk = False\<rparr> 0],
         dl_result = EDGEHOG_RESULT_NETWORK_ERROR\<rparr>
      else if i = 1 then full_download
      else failed_download)"

definition flaky_env :: ota_env where
  "flaky_env =
     \<lparr>erase_err = 0, flash_init_err = 0, save_req_id_res = EDGEHOG_RESULT_OK,
      attempts = flaky_attempts, backoff_cmds = no_cancels\<rparr>"

definition erase_fail_env :: ota_env where
  "erase_fail_env = flaky_env\<lparr>erase_err := - 5\<rparr>"

definition init_fail_env :: ota_env where
  "init_fail_env = flaky_env\<lparr>flash_init_err := - 5\<rparr>"

text \<open>The happy path: the first download delivers the whole image.\<close>

definition happy_env :: ota_env where
  "happy_env =
     \<lparr>erase_err = 0, flash_init_err = 0, save_req_id_res = EDGEHOG_RESULT_OK,
      attempts = (\<lambda>i. full_download), backoff_cmds = no_cancels\<rparr>"

definition happy_thread_env :: thread_env where
  "happy_thread_env =
     \<lparr>thread_init_res = EDGEHOG_RESULT_OK, ota = happy_env, hdr_err = 0, upgrade_err = 0,
      reboot_cmds = []\<rparr>"

text \<open>The worker's state after the whole image has been written.\<close>

definition worker_downloaded :: ota_thread_data where
  "worker_downloaded =
     worker_start\<lparr>download_size := 1024, image_size := 1024, last_perc_sent := 100,
                  flash_ctx := \<lparr>bytes_written = 1024\<rparr>\<rparr>"

text \<open>
  Retries exhausted: every download fails at once. A cancelled worker. The three
  environments of an Update command: no memory for the uuid copy, no thread, all fine.
\<close>

definition exhausted_env :: ota_env where
  "exhausted_env =
     \<lparr>erase_err = 0, flash_init_err = 0, save_req_id_res = EDGEHOG_RESULT_OK,
      attempts = (\<lambda>i. failed_download), backoff_cmds = no_cancels\<rparr>"

definition exhausted_thread_env :: thread_env where
  "exhausted_thread_env =
     \<lparr>thread_init_res = EDGEHOG_RESULT_OK, ota = exhausted_env, hdr_err = 0, upgrade_err = 0,
      reboot_cmds = []\<rparr>"

definition worker_cancelled :: ota_thread_data where
  "worker_cancelled = worker_start\<lparr>ota_run_state := 0\<rparr>"

definition oom_uuid_env :: update_env where
  "oom_uuid_env = \<lparr>calloc_uuid_ok = False, calloc_url_ok = True, thread_create_ok = True\<rparr>"
definition thread_fail_env :: update_env where
  "thread_fail_env = \<lparr>calloc_uuid_ok = True, calloc_url_ok = True, thread_create_ok = False\<rparr>"
definition update_ok_env :: update_env where
  "update_ok_env = \<lparr>calloc_uuid_ok = True, calloc_url_ok = True, thread_create_ok = True\<rparr>"









section \<open>Auxiliary facts\<close>

text \<open>The run-bit after the atomic operations (the simplifier writes bit 1 as \<open>Suc 0\<close>).\<close>

lemma test_after_clear [simp]:
  "\<not> atomic_test_bit (snd (atomic_test_and_clear_bit w (Suc 0))) (Suc 0)"
  by (simp add: atomic_test_bit_def atomic_test_and_clear_bit_def bit_unset_bit_iff)

lemma test_after_clear_bit [simp]:
  "\<not> atomic_test_bit (atomic_clear_bit w (Suc 0)) (Suc 0)"
  by (simp add: atomic_test_bit_def atomic_clear_bit_def bit_unset_bit_iff)

lemma test_after_set [simp]:
  "atomic_test_bit (snd (atomic_test_and_set_bit w (Suc 0))) (Suc 0)"
  by (simp add: atomic_test_bit_def atomic_test_and_set_bit_def bit_set_bit_iff)

lemma test_zero [simp]: "\<not> atomic_test_bit 0 (Suc 0)"
  by (simp add: atomic_test_bit_def)

lemma cancel_actions:
  "edgehog_ota_event_cancel u e d = (r, d', t) \<Longrightarrow> \<forall>a \<in> set t. attempt_action a"
  by (auto simp: edgehog_ota_event_cancel_def pub_ota_event_def split: if_splits)

lemma cancel_request:
  "edgehog_ota_event_cancel u e d = (r, d', t) \<Longrightarrow>
     ota_request d' = ota_request d \<and> flash_ctx d' = flash_ctx d
     \<and> last_perc_sent d' = last_perc_sent d \<and> image_size d' = image_size d
     \<and> download_size d' = download_size d"
  by (auto simp: edgehog_ota_event_cancel_def split: if_splits)


lemma run_cancels_actions:
  "run_cancels cs d = (d', t) \<Longrightarrow> \<forall>a \<in> set t. attempt_action a"
proof (induction cs arbitrary: d d' t)
  case Nil
  then show ?case by simp
next
  case (Cons c cs)
  obtain u e where c: "c = (u, e)" by (cases c)
  obtain r d1 t1 where h1: "edgehog_ota_event_cancel u e d = (r, d1, t1)"
    by (cases "edgehog_ota_event_cancel u e d")
  obtain d2 t2 where h2: "run_cancels cs d1 = (d2, t2)"
    by (cases "run_cancels cs d1")
  from Cons.prems c h1 h2 have t: "t = t1 @ [CancelReturn r] @ t2" by simp
  from cancel_actions [OF h1] Cons.IH [OF h2] t show ?case by auto
qed

lemma run_cancels_request:
  "run_cancels cs d = (d', t) \<Longrightarrow> ota_request d' = ota_request d"
proof (induction cs arbitrary: d d' t)
  case Nil
  then show ?case by simp
next
  case (Cons c cs)
  obtain u e where c: "c = (u, e)" by (cases c)
  obtain r d1 t1 where h1: "edgehog_ota_event_cancel u e d = (r, d1, t1)"
    by (cases "edgehog_ota_event_cancel u e d")
  obtain d2 t2 where h2: "run_cancels cs d1 = (d2, t2)"
    by (cases "run_cancels cs d1")
  from Cons.prems c h1 h2 have "d' = d2" by simp
  with cancel_request [OF h1] Cons.IH [OF h2] show ?case by simp
qed

lemma cbk_actions:
  "http_download_payload_cbk s c ud w d = (r, d', t) \<Longrightarrow> \<forall>a \<in> set t. attempt_action a"
  by (auto simp: http_download_payload_cbk_def pub_ota_event_def Let_def
      split: option.splits if_splits)

lemma cbk_request:
  "http_download_payload_cbk s c ud w d = (r, d', t) \<Longrightarrow>
     ota_request d' = ota_request d \<and> ota_run_state d' = ota_run_state d"
  by (auto simp: http_download_payload_cbk_def Let_def split: option.splits if_splits)

lemma deliver_actions:
  "http_deliver s sts d = (ok, d', t) \<Longrightarrow> \<forall>a \<in> set t. attempt_action a"
proof (induction sts arbitrary: d ok d' t)
  case Nil
  then show ?case by simp
next
  case (Cons st rest)
  show ?case
  proof (cases st)
    case (CancelCmd u e)
    obtain r d1 t1 where h1: "edgehog_ota_event_cancel u e d = (r, d1, t1)"
      by (cases "edgehog_ota_event_cancel u e d")
    obtain ok2 d2 t2 where h2: "http_deliver s rest d1 = (ok2, d2, t2)"
      by (cases "http_deliver s rest d1")
    from Cons.prems CancelCmd h1 h2 have t: "t = t1 @ [CancelReturn r] @ t2" by simp
    from Cons.IH [OF h2] cancel_actions [OF h1] t show ?thesis by auto
  next
    case (Chunk c w)
    obtain r d1 t1 where h1: "http_download_payload_cbk s (Some c) True w d = (r, d1, t1)"
      by (cases "http_download_payload_cbk s (Some c) True w d")
    obtain ok2 d2 t2 where h2: "http_deliver s rest d1 = (ok2, d2, t2)"
      by (cases "http_deliver s rest d1")
    from Cons.prems Chunk h1 h2 have "t = t1 \<or> t = t1 @ t2"
      by (auto split: if_splits)
    with Cons.IH [OF h2] cbk_actions [OF h1] show ?thesis by auto
  qed
qed

lemma deliver_request:
  "http_deliver s sts d = (ok, d', t) \<Longrightarrow> ota_request d' = ota_request d"
proof (induction sts arbitrary: d ok d' t)
  case Nil
  then show ?case by simp
next
  case (Cons st rest)
  show ?case
  proof (cases st)
    case (CancelCmd u e)
    obtain r d1 t1 where h1: "edgehog_ota_event_cancel u e d = (r, d1, t1)"
      by (cases "edgehog_ota_event_cancel u e d")
    obtain ok2 d2 t2 where h2: "http_deliver s rest d1 = (ok2, d2, t2)"
      by (cases "http_deliver s rest d1")
    from Cons.prems CancelCmd h1 h2 have "d' = d2" by simp
    with Cons.IH [OF h2] cancel_request [OF h1] show ?thesis by simp
  next
    case (Chunk c w)
    obtain r d1 t1 where h1: "http_download_payload_cbk s (Some c) True w d = (r, d1, t1)"
      by (cases "http_download_payload_cbk s (Some c) True w d")
    obtain ok2 d2 t2 where h2: "http_deliver s rest d1 = (ok2, d2, t2)"
      by (cases "http_deliver s rest d1")
    from Cons.prems Chunk h1 h2 have "d' = d1 \<or> d' = d2"
      by (auto split: if_splits)
    with Cons.IH [OF h2] cbk_request [OF h1] show ?thesis by auto
  qed
qed

lemma attempt_actions:
  "perform_ota_attempt e d = (r, d', t) \<Longrightarrow> \<forall>a \<in> set t. attempt_action a"
proof -
  assume a: "perform_ota_attempt e d = (r, d', t)"
  obtain ok d1 t1 where h: "http_deliver (sock e) (steps e) d = (ok, d1, t1)"
    by (cases "http_deliver (sock e) (steps e) d")
  from a h have "t = HttpDownload (download_url (ota_request d)) OTA_REQ_TIMEOUT_MS # t1"
    by (auto simp: perform_ota_attempt_def edgehog_http_download_def Let_def
        split: if_splits)
  with deliver_actions [OF h] show ?thesis by simp
qed

lemma attempt_request:
  "perform_ota_attempt e d = (r, d', t) \<Longrightarrow> ota_request d' = ota_request d"
proof -
  assume a: "perform_ota_attempt e d = (r, d', t)"
  obtain ok d1 t1 where h: "http_deliver (sock e) (steps e) d = (ok, d1, t1)"
    by (cases "http_deliver (sock e) (steps e) d")
  from a h have "ota_request d' = ota_request d1"
    by (auto simp: perform_ota_attempt_def edgehog_http_download_def Let_def
        split: if_splits)
  with deliver_request [OF h] show ?thesis by simp
qed


lemma attempt_not_backoff: "attempt_action a \<Longrightarrow> \<not> is_backoff a"
  by (cases a) auto

lemma filter_backoff_attempt:
  "\<forall>a \<in> set t. attempt_action a \<Longrightarrow> filter is_backoff t = []"
  by (induction t) (auto dest: attempt_not_backoff)

lemma filter_download_cancels:
  "edgehog_ota_event_cancel u e d = (r, d', t) \<Longrightarrow> filter is_http_download t = []"
  by (auto simp: edgehog_ota_event_cancel_def pub_ota_event_def split: if_splits)

lemma filter_download_run_cancels:
  "run_cancels cs d = (d', t) \<Longrightarrow> filter is_http_download t = []"
proof (induction cs arbitrary: d d' t)
  case Nil
  then show ?case by simp
next
  case (Cons c cs)
  obtain u e where c: "c = (u, e)" by (cases c)
  obtain r d1 t1 where h1: "edgehog_ota_event_cancel u e d = (r, d1, t1)"
    by (cases "edgehog_ota_event_cancel u e d")
  obtain d2 t2 where h2: "run_cancels cs d1 = (d2, t2)"
    by (cases "run_cancels cs d1")
  from Cons.prems c h1 h2 have t: "t = t1 @ [CancelReturn r] @ t2" by simp
  from filter_download_cancels [OF h1] Cons.IH [OF h2] t show ?case by simp
qed

lemma filter_download_cbk:
  "http_download_payload_cbk s c ud w d = (r, d', t) \<Longrightarrow> filter is_http_download t = []"
  by (auto simp: http_download_payload_cbk_def pub_ota_event_def Let_def
      split: option.splits if_splits)

lemma filter_download_deliver:
  "http_deliver s sts d = (ok, d', t) \<Longrightarrow> filter is_http_download t = []"
proof (induction sts arbitrary: d ok d' t)
  case Nil
  then show ?case by simp
next
  case (Cons st rest)
  show ?case
  proof (cases st)
    case (CancelCmd u e)
    obtain r d1 t1 where h1: "edgehog_ota_event_cancel u e d = (r, d1, t1)"
      by (cases "edgehog_ota_event_cancel u e d")
    obtain ok2 d2 t2 where h2: "http_deliver s rest d1 = (ok2, d2, t2)"
      by (cases "http_deliver s rest d1")
    from Cons.prems CancelCmd h1 h2 have t: "t = t1 @ [CancelReturn r] @ t2" by simp
    from Cons.IH [OF h2] filter_download_cancels [OF h1] t show ?thesis by simp
  next
    case (Chunk c w)
    obtain r d1 t1 where h1: "http_download_payload_cbk s (Some c) True w d = (r, d1, t1)"
      by (cases "http_download_payload_cbk s (Some c) True w d")
    obtain ok2 d2 t2 where h2: "http_deliver s rest d1 = (ok2, d2, t2)"
      by (cases "http_deliver s rest d1")
    from Cons.prems Chunk h1 h2 have "t = t1 \<or> t = t1 @ t2"
      by (auto split: if_splits)
    with Cons.IH [OF h2] filter_download_cbk [OF h1] show ?thesis by auto
  qed
qed

lemma attempt_one_download:
  "perform_ota_attempt e d = (r, d', t) \<Longrightarrow> length (filter is_http_download t) = 1"
proof -
  assume a: "perform_ota_attempt e d = (r, d', t)"
  obtain ok d1 t1 where h: "http_deliver (sock e) (steps e) d = (ok, d1, t1)"
    by (cases "http_deliver (sock e) (steps e) d")
  from a h have "t = HttpDownload (download_url (ota_request d)) OTA_REQ_TIMEOUT_MS # t1"
    by (auto simp: perform_ota_attempt_def edgehog_http_download_def Let_def
        split: if_splits)
  with filter_download_deliver [OF h] show ?thesis by simp
qed

text \<open>One iteration of the loop, case by case.\<close>

lemma loop_stop:
  "\<not> i < MAX_OTA_RETRY \<Longrightarrow> perform_ota_loop env i r0 d = (Some r0, d, [])"
  by (simp add: perform_ota_loop.simps)

lemma loop_fault:
  "i < MAX_OTA_RETRY \<Longrightarrow> perform_ota_attempt (attempts env i) d = (None, d1, t1) \<Longrightarrow>
   perform_ota_loop env i r0 d =
     (None, d1, pub_ota_event (ota_request.uuid (ota_request d)) OTA_EVENT_DOWNLOADING 0
                  EDGEHOG_RESULT_OK [] # t1)"
  by (simp add: perform_ota_loop.simps [of env i])

lemma loop_done:
  "i < MAX_OTA_RETRY \<Longrightarrow> perform_ota_attempt (attempts env i) d = (Some res, d1, t1) \<Longrightarrow>
   res = EDGEHOG_RESULT_OK \<or> res = EDGEHOG_RESULT_OTA_CANCELED \<Longrightarrow>
   perform_ota_loop env i r0 d =
     (Some res, d1, pub_ota_event (ota_request.uuid (ota_request d)) OTA_EVENT_DOWNLOADING 0
                  EDGEHOG_RESULT_OK [] # t1)"
  by (auto simp add: perform_ota_loop.simps [of env i])

lemma loop_retry:
  "i < MAX_OTA_RETRY \<Longrightarrow> perform_ota_attempt (attempts env i) d = (Some res, d1, t1) \<Longrightarrow>
   res \<noteq> EDGEHOG_RESULT_OK \<Longrightarrow> res \<noteq> EDGEHOG_RESULT_OTA_CANCELED \<Longrightarrow>
   run_cancels (backoff_cmds env i) d1 = (d2, t2) \<Longrightarrow>
   perform_ota_loop env (Suc i) res d2 = (r, d3, t3) \<Longrightarrow>
   perform_ota_loop env i r0 d =
     (r, d3, pub_ota_event (ota_request.uuid (ota_request d)) OTA_EVENT_DOWNLOADING 0
               EDGEHOG_RESULT_OK [] # t1
             @ [Sleep (i * OTA_ATTEMPS_DELAY_MS)] @ t2
             @ [pub_ota_event (ota_request.uuid (ota_request d2)) OTA_EVENT_ERROR 0 res []]
             @ t3)"
  by (simp add: perform_ota_loop.simps [of env i])

lemma results_stop: "\<not> i < MAX_OTA_RETRY \<Longrightarrow> attempt_results env i d = []"
  by (simp add: attempt_results.simps)

lemma results_fault:
  "i < MAX_OTA_RETRY \<Longrightarrow> perform_ota_attempt (attempts env i) d = (None, d1, t1) \<Longrightarrow>
   attempt_results env i d = [None]"
  by (simp add: attempt_results.simps [of env i])

lemma results_done:
  "i < MAX_OTA_RETRY \<Longrightarrow> perform_ota_attempt (attempts env i) d = (Some res, d1, t1) \<Longrightarrow>
   res = EDGEHOG_RESULT_OK \<or> res = EDGEHOG_RESULT_OTA_CANCELED \<Longrightarrow>
   attempt_results env i d = [Some res]"
  by (auto simp add: attempt_results.simps [of env i])

lemma results_retry:
  "i < MAX_OTA_RETRY \<Longrightarrow> perform_ota_attempt (attempts env i) d = (Some res, d1, t1) \<Longrightarrow>
   res \<noteq> EDGEHOG_RESULT_OK \<Longrightarrow> res \<noteq> EDGEHOG_RESULT_OTA_CANCELED \<Longrightarrow>
   run_cancels (backoff_cmds env i) d1 = (d2, t2) \<Longrightarrow>
   attempt_results env i d = Some res # attempt_results env (Suc i) d2"
  by (simp add: attempt_results.simps [of env i])


lemma loop_policy:
  assumes "i \<le> MAX_OTA_RETRY" and "perform_ota_loop env i r0 d = (r, d', t)"
  shows "length (attempt_results env i d) \<le> MAX_OTA_RETRY - i
     \<and> (i < MAX_OTA_RETRY \<longrightarrow> attempt_results env i d \<noteq> [])
     \<and> length (filter is_http_download t) = length (attempt_results env i d)
     \<and> filter is_backoff t =
         backoff_trace (ota_request.uuid (ota_request d)) i (attempt_results env i d)
     \<and> r = (if attempt_results env i d = [] then Some r0
            else last (attempt_results env i d))
     \<and> (\<forall>x \<in> set (butlast (attempt_results env i d)). retried x)
     \<and> (length (attempt_results env i d) < MAX_OTA_RETRY - i \<longrightarrow>
          \<not> retried (last (attempt_results env i d)))
     \<and> (\<forall>a \<in> set t. attempt_action a \<or> is_backoff a)
     \<and> ota_request d' = ota_request d"
  using assms
proof (induction i arbitrary: r0 d r d' t rule: inc_induct)
  case base
  then show ?case by (simp add: loop_stop results_stop)
next
  case (step n)
  obtain ra d1 t1 where att: "perform_ota_attempt (attempts env n) d = (ra, d1, t1)"
    by (cases "perform_ota_attempt (attempts env n) d")
  note a1 = attempt_actions [OF att]
  note q1 = attempt_request [OF att]
  note n1 = attempt_one_download [OF att]
  note f1 = filter_backoff_attempt [OF a1]
  show ?case
  proof (cases ra)
    case None
    from loop_fault [OF step.hyps(2) att [unfolded None], of r0] step.prems
    have "r = None" "d' = d1"
      "t = pub_ota_event (ota_request.uuid (ota_request d)) OTA_EVENT_DOWNLOADING 0
             EDGEHOG_RESULT_OK [] # t1"
      by simp_all
    moreover from results_fault [OF step.hyps(2) att [unfolded None]]
    have "attempt_results env n d = [None]" .
    ultimately show ?thesis using a1 q1 n1 f1 step.hyps
      by (auto simp: pub_ota_event_def)
  next
    case (Some res)
    show ?thesis
    proof (cases "res = EDGEHOG_RESULT_OK \<or> res = EDGEHOG_RESULT_OTA_CANCELED")
      case True
      from loop_done [OF step.hyps(2) att [unfolded Some] True, of r0] step.prems
      have "r = Some res" "d' = d1"
        "t = pub_ota_event (ota_request.uuid (ota_request d)) OTA_EVENT_DOWNLOADING 0
               EDGEHOG_RESULT_OK [] # t1"
        by simp_all
      moreover from results_done [OF step.hyps(2) att [unfolded Some] True]
      have "attempt_results env n d = [Some res]" .
      ultimately show ?thesis using True a1 q1 n1 f1 step.hyps
        by (auto simp: pub_ota_event_def)
    next
      case False
      then have ne: "res \<noteq> EDGEHOG_RESULT_OK" "res \<noteq> EDGEHOG_RESULT_OTA_CANCELED"
        by auto
      obtain d2 t2 where rc: "run_cancels (backoff_cmds env n) d1 = (d2, t2)"
        by (cases "run_cancels (backoff_cmds env n) d1")
      obtain r3 d3 t3 where lp: "perform_ota_loop env (Suc n) res d2 = (r3, d3, t3)"
        by (cases "perform_ota_loop env (Suc n) res d2")
      note ih = step.IH [OF lp]
      note q2 = run_cancels_request [OF rc]
      note a2 = run_cancels_actions [OF rc]
      note f2 = filter_backoff_attempt [OF a2]
      note n2 = filter_download_run_cancels [OF rc]
      from loop_retry [OF step.hyps(2) att [unfolded Some] ne rc lp, of r0] step.prems
      have r: "r = r3" and d: "d' = d3"
        and t: "t = pub_ota_event (ota_request.uuid (ota_request d)) OTA_EVENT_DOWNLOADING 0
                EDGEHOG_RESULT_OK [] # t1 @ [Sleep (n * OTA_ATTEMPS_DELAY_MS)] @ t2
                @ [pub_ota_event (ota_request.uuid (ota_request d2)) OTA_EVENT_ERROR 0 res []]
                @ t3"
        by simp_all
      from results_retry [OF step.hyps(2) att [unfolded Some] ne rc]
      have rs: "attempt_results env n d = Some res # attempt_results env (Suc n) d2" .
      have u: "ota_request d2 = ota_request d" using q1 q2 by simp
      show ?thesis
        using ih r d t rs u ne a1 a2 f1 f2 n1 n2 step.hyps
        by (auto simp: pub_ota_event_def)
    qed
  qed
qed

lemma perform_ota_cases:
  assumes "perform_ota env d = (r, d', t)"
  shows "(erase_err env \<noteq> 0 \<and> r = Some EDGEHOG_RESULT_OTA_ERASE_SECOND_SLOT_ERROR \<and> d' = d
          \<and> t = [BootEraseImgBank])
       \<or> (erase_err env = 0 \<and> flash_init_err env \<noteq> 0
          \<and> r = Some EDGEHOG_RESULT_OTA_INIT_FLASH_ERROR \<and> d' = d
          \<and> t = [BootEraseImgBank, FlashImgInit])
       \<or> (erase_err env = 0 \<and> flash_init_err env = 0
          \<and> save_req_id_res env \<noteq> EDGEHOG_RESULT_OK \<and> r = Some (save_req_id_res env)
          \<and> t = [BootEraseImgBank, FlashImgInit,
                 SettingsSave OTA_KEY OTA_REQUEST_ID_KEY
                   (Buf (ota_request.uuid (ota_request d)) 37)])
       \<or> (erase_err env = 0 \<and> flash_init_err env = 0
          \<and> save_req_id_res env = EDGEHOG_RESULT_OK
          \<and> (\<exists>tl. perform_ota_loop env 0 EDGEHOG_RESULT_OK
                     (d\<lparr>flash_ctx := flash_img_init 0 (flash_ctx d)\<rparr>) = (r, d', tl)
                \<and> t = [BootEraseImgBank, FlashImgInit,
                       SettingsSave OTA_KEY OTA_REQUEST_ID_KEY
                         (Buf (ota_request.uuid (ota_request d)) 37)] @ tl))"
  using assms
  by (auto simp: perform_ota_def Let_def flash_img_init_def split: if_splits prod.splits)

lemma attempt_or_backoff_plain:
  "attempt_action a \<or> is_backoff a \<Longrightarrow>
     \<not> is_boot_commit a \<and> \<not> is_flash_prepare a \<and> \<not> is_settings_write a"
  by (cases a) auto

lemma loop_plain:
  assumes "perform_ota_loop env 0 r0 d = (r, d', t)"
  shows "\<forall>a \<in> set t. \<not> is_boot_commit a \<and> \<not> is_flash_prepare a \<and> \<not> is_settings_write a"
proof -
  from loop_policy [OF _ assms] have "\<forall>a \<in> set t. attempt_action a \<or> is_backoff a"
    by simp
  then show ?thesis using attempt_or_backoff_plain by blast
qed

lemma perform_ota_no_commit:
  assumes "perform_ota env d = (r, d', t)"
  shows "\<forall>a \<in> set t. \<not> is_boot_commit a"
  using perform_ota_cases [OF assms] loop_plain by fastforce

lemmas eval_defs =
  perform_ota_def perform_ota_loop.simps perform_ota_attempt_def
  edgehog_http_download_def http_download_payload_cbk_def flash_img_init_def
  flash_img_buffered_write_def flash_img_bytes_written_def atomic_test_bit_def
  atomic_clear_bit_def atomic_test_and_clear_bit_def
  pub_ota_event_def Let_def signed_modulo_int_def edgehog_ota_event_cancel_def
  ota_thread_entry_point_def selfdestruct_def

lemma thread_failure_tail:
  assumes "thread_init_res tenv = EDGEHOG_RESULT_OK"
    and "perform_ota (ota tenv) d = (Some res, d1, tp)"
    and "res \<noteq> EDGEHOG_RESULT_OK"
  shows "ota_thread_entry_point True tenv d =
     (d1\<lparr>ota_run_state := atomic_clear_bit (ota_run_state d1) OTA_STATE_RUN_BIT\<rparr>,
      [pub_ota_event (ota_request.uuid (ota_request d)) OTA_EVENT_ACKNOWLEDGED 0
         EDGEHOG_RESULT_OK [],
       SettingsInit,
       SettingsSave OTA_KEY OTA_STATE_KEY (U8 OTA_STATE_IN_PROGRESS)] @ tp
      @ [Publish \<lparr>requestUUID = ota_request.uuid (ota_request d), status = ''Failure'',
                  statusProgress = 0, statusCode = status_code_of res, message = []\<rparr>,
         SettingsSave ''ota'' ''state'' (U8 OTA_STATE_IDLE),
         SettingsDelete ''ota'' ''req_id'',
         SettingsSave ''ota'' ''state'' (U8 OTA_STATE_IDLE)])"
  using assms
  by (simp add: ota_thread_entry_point_def Let_def selfdestruct_def pub_ota_event_def)

lemma deliver_not_running:
  "\<not> running d \<Longrightarrow>
   fst (snd (http_deliver s sts d)) = d \<and> filter sink_effect (snd (snd (http_deliver s sts d))) = []"
proof (induction sts)
  case Nil
  then show ?case by simp
next
  case (Cons st rest)
  show ?case
  proof (cases st)
    case (CancelCmd u e)
    from Cons.prems have c: "edgehog_ota_event_cancel u e d =
      (EDGEHOG_RESULT_OTA_INVALID_REQUEST, d,
         [pub_ota_event u OTA_EVENT_FAILURE 0 EDGEHOG_RESULT_OTA_INVALID_REQUEST
            ''Unable to cancel OTA update request, no OTA update running.''])"
      by (simp add: edgehog_ota_event_cancel_def)
    obtain ok2 d2 t2 where h2: "http_deliver s rest d = (ok2, d2, t2)"
      by (cases "http_deliver s rest d")
    from Cons.IH [OF Cons.prems] show ?thesis
      by (simp add: CancelCmd c h2 pub_ota_event_def)
  next
    case (Chunk c w)
    from Cons.prems show ?thesis
      by (simp add: Chunk http_download_payload_cbk_def)
  qed
qed

lemma unset_run_bit_2 [simp]: "unset_bit (Suc 0) (2 :: 32 word) = 0"
  by (simp add: unset_bit_eq_and_not)

lemma uuid_a_length [simp]: "length uuid_a = 36"
  by (simp add: uuid_a_def)




text \<open>The percentage arithmetic of the sink.\<close>

lemma downloading_progress_simps [simp]:
  "downloading_progress [] = []"
  "downloading_progress (a # t) = progress_of a @ downloading_progress t"
  "downloading_progress (t @ t') = downloading_progress t @ downloading_progress t'"
  by (simp_all add: downloading_progress_def)

lemma rounded_multiple: "(10 :: int) dvd k - k smod 10"
  by (simp add: minus_smod_eq_sdiv_mult)

lemma rounded_nonneg: "int q - int q smod 10 = int (q div 10 * 10)"
proof -
  have "int q smod 10 = int q mod 10"
    by (simp add: signed_modulo_int_def sgn_if)
  then show ?thesis
    by (simp add: minus_mod_eq_div_mult zdiv_int)
qed

lemma percent_exact:
  fixes b T :: "32 word"
  assumes "T \<noteq> 0" and "unat b \<le> unat T" and "100 * unat T < 2 ^ 32"
  shows "sint (100 * b div T) = int (100 * unat b div unat T)"
    and "100 * unat b div unat T \<le> 100"
proof -
  have T: "0 < unat T" using assms(1) by (simp add: unat_gt_0)
  have "unat (100 :: 32 word) * unat b < 2 ^ LENGTH(32)"
    using assms(2,3) by simp
  then have "unat (100 * b) = 100 * unat b"
    using unat_mult_lem [of "100 :: 32 word" b] by simp
  then have u: "unat (100 * b div T) = 100 * unat b div unat T"
    by (simp add: unat_div)
  have "100 * unat b div unat T \<le> 100 * unat T div unat T"
    using assms(2) by (intro div_le_mono) simp
  also have "\<dots> = 100" using T by simp
  finally show le: "100 * unat b div unat T \<le> 100" .
  have ui: "uint (100 * b div T) = int (100 * unat b div unat T)"
    using u by (metis of_nat_unat uint_nat)
  have "sint (100 * b div T) = signed_take_bit (31 :: nat) (uint (100 * b div T))"
    by (simp add: sint_uint)
  also have "\<dots> = signed_take_bit (31 :: nat) (int (100 * unat b div unat T))"
    by (simp only: ui)
  also have "\<dots> = int (100 * unat b div unat T)"
  proof (rule signed_take_bit_int_eq_self)
    show "- (2 ^ 31) \<le> int (100 * unat b div unat T)"
      by (rule order_trans [of _ 0]) simp_all
    have "int (100 * unat b div unat T) \<le> 100" using le by linarith
    then show "int (100 * unat b div unat T) < 2 ^ 31" by simp
  qed
  finally show "sint (100 * b div T) = int (100 * unat b div unat T)" .
qed


lemma rounded_percent_mono:
  "unat b \<le> unat b' \<Longrightarrow> rounded_percent b T \<le> rounded_percent b' T"
  unfolding rounded_percent_def
  by (intro iffD2 [OF of_nat_le_iff] mult_le_mono1 div_le_mono mult_le_mono2)

lemma rounded_percent_bounds:
  assumes "T \<noteq> 0" and "unat b \<le> unat T"
  shows "0 \<le> rounded_percent b T" and "rounded_percent b T \<le> 100"
    and "10 dvd rounded_percent b T"
proof -
  have T: "0 < unat T" using assms(1) by (simp add: unat_gt_0)
  have "100 * unat b div unat T \<le> 100 * unat T div unat T"
    using assms(2) by (intro div_le_mono) simp
  also have "\<dots> = 100" using T by simp
  finally have "100 * unat b div unat T div 10 * 10 \<le> 100" by simp
  then show "rounded_percent b T \<le> 100" by (simp add: rounded_percent_def)
  show "0 \<le> rounded_percent b T" by (simp add: rounded_percent_def)
  show "10 dvd rounded_percent b T" by (simp add: rounded_percent_def)
qed

lemma cbk_stops_silent:
  assumes "\<not> running d \<or> w < 0"
  shows "downloading_progress (snd (snd (http_download_payload_cbk s (Some c) True w d))) = []
       \<and> (fst (http_download_payload_cbk s (Some c) True w d) \<noteq> Some EDGEHOG_RESULT_OK
          \<or> HttpDownloadAbort s
               \<in> set (snd (snd (http_download_payload_cbk s (Some c) True w d))))
       \<and> fst (http_download_payload_cbk s (Some c) True w d) \<noteq> None"
  using assms by (auto simp: http_download_payload_cbk_def)

lemma cbk_emit:
  assumes "running d" and "0 \<le> w" and "http_download_chunk.download_size c = T"
    and "T \<noteq> 0" and "100 * unat T < 2 ^ 32"
    and "unat (bytes_written (flash_ctx d)) + unat (chunk_size c) \<le> unat T"
  shows "\<exists>d1 t1. http_download_payload_cbk s (Some c) True w d =
                   (Some EDGEHOG_RESULT_OK, d1, t1)
           \<and> HttpDownloadAbort s \<notin> set t1
           \<and> unat (bytes_written (flash_ctx d1)) =
               unat (bytes_written (flash_ctx d)) + unat (chunk_size c)
           \<and> last_perc_sent d1 = rounded_percent (bytes_written (flash_ctx d1)) T
           \<and> downloading_progress t1 =
               (if rounded_percent (bytes_written (flash_ctx d1)) T \<noteq> last_perc_sent d
                then [rounded_percent (bytes_written (flash_ctx d1)) T] else [])"
proof -
  let ?b = "bytes_written (flash_ctx d) + chunk_size c"
  have "unat (bytes_written (flash_ctx d)) + unat (chunk_size c) < 2 ^ LENGTH(32)"
    using assms(5,6) by simp
  then have ub: "unat ?b = unat (bytes_written (flash_ctx d)) + unat (chunk_size c)"
    using unat_add_lem [of "bytes_written (flash_ctx d)" "chunk_size c"] by simp
  with assms(6) have le: "unat ?b \<le> unat T" by simp
  from percent_exact(1) [OF assms(4) le assms(5)]
  have "sint (100 * ?b div T) - sint (100 * ?b div T) smod 10 = rounded_percent ?b T"
    by (simp add: rounded_nonneg rounded_percent_def)
  with assms(1-4) ub show ?thesis
    by (simp add: http_download_payload_cbk_def Let_def flash_img_buffered_write_def
        flash_img_bytes_written_def pub_ota_event_def)
qed

lemma cancel_progress:
  "downloading_progress (snd (snd (edgehog_ota_event_cancel u e d))) = []"
  by (simp add: edgehog_ota_event_cancel_def pub_ota_event_def)

lemma deliver_progress:
  assumes "T \<noteq> 0" and "100 * unat T < 2 ^ 32"
  shows "list_all (declares T) sts \<Longrightarrow>
     unat (bytes_written (flash_ctx d)) + sum_list (map step_bytes sts) \<le> unat T \<Longrightarrow>
     last_perc_sent d = rounded_percent (bytes_written (flash_ctx d)) T \<Longrightarrow>
     sorted_wrt (<) (downloading_progress (snd (snd (http_deliver s sts d))))
     \<and> (\<forall>p \<in> set (downloading_progress (snd (snd (http_deliver s sts d)))).
           last_perc_sent d < p \<and> p \<le> 100 \<and> 10 dvd p)"
proof (induction sts arbitrary: d)
  case Nil
  then show ?case by simp
next
  case (Cons st rest)
  from Cons.prems(1) have dr: "list_all (declares T) rest" and dst: "declares T st"
    by simp_all
  show ?case
  proof (cases st)
    case (CancelCmd u e)
    obtain r d1 t1 where c: "edgehog_ota_event_cancel u e d = (r, d1, t1)"
      by (cases "edgehog_ota_event_cancel u e d")
    from cancel_request [OF c] have same: "flash_ctx d1 = flash_ctx d"
      "last_perc_sent d1 = last_perc_sent d" by simp_all
    from cancel_progress [of u e d] c have p1: "downloading_progress t1 = []" by simp
    obtain ok2 d2 t2 where h2: "http_deliver s rest d1 = (ok2, d2, t2)"
      by (cases "http_deliver s rest d1")
    from Cons.prems(2,3) CancelCmd same
    have "unat (bytes_written (flash_ctx d1)) + sum_list (map step_bytes rest) \<le> unat T"
      and "last_perc_sent d1 = rounded_percent (bytes_written (flash_ctx d1)) T"
      by simp_all
    from Cons.IH [OF dr this] h2 same p1 show ?thesis
      by (simp add: CancelCmd c)
  next
    case (Chunk c w)
    show ?thesis
    proof (cases "\<not> running d \<or> w < 0")
      case True
      obtain r d1 t1 where k: "http_download_payload_cbk s (Some c) True w d = (r, d1, t1)"
        by (cases "http_download_payload_cbk s (Some c) True w d")
      from cbk_stops_silent [OF True, of s c] k
      have "downloading_progress t1 = []"
        and "r \<noteq> Some EDGEHOG_RESULT_OK \<or> HttpDownloadAbort s \<in> set t1"
        by simp_all
      then show ?thesis by (auto simp: Chunk k)
    next
      case False
      then have run: "running d" and w: "0 \<le> w" by auto
      from dst Chunk have tot: "http_download_chunk.download_size c = T" by simp
      from Cons.prems(2) Chunk
      have fits: "unat (bytes_written (flash_ctx d)) + unat (chunk_size c) \<le> unat T"
        and rest_fits: "unat (bytes_written (flash_ctx d)) + unat (chunk_size c)
                          + sum_list (map step_bytes rest) \<le> unat T"
        by simp_all
      from cbk_emit [OF run w tot assms fits, of s]
      obtain d1 t1 where k: "http_download_payload_cbk s (Some c) True w d =
                               (Some EDGEHOG_RESULT_OK, d1, t1)"
        and na: "HttpDownloadAbort s \<notin> set t1"
        and ub: "unat (bytes_written (flash_ctx d1)) =
                   unat (bytes_written (flash_ctx d)) + unat (chunk_size c)"
        and lp: "last_perc_sent d1 = rounded_percent (bytes_written (flash_ctx d1)) T"
        and pr: "downloading_progress t1 =
               (if rounded_percent (bytes_written (flash_ctx d1)) T \<noteq> last_perc_sent d
                then [rounded_percent (bytes_written (flash_ctx d1)) T] else [])"
        by blast
      obtain ok2 d2 t2 where h2: "http_deliver s rest d1 = (ok2, d2, t2)"
        by (cases "http_deliver s rest d1")
      from rest_fits ub
      have "unat (bytes_written (flash_ctx d1)) + sum_list (map step_bytes rest) \<le> unat T"
        by simp
      from Cons.IH [OF dr this lp] h2
      have ih: "sorted_wrt (<) (downloading_progress t2)"
        "\<forall>p \<in> set (downloading_progress t2). last_perc_sent d1 < p \<and> p \<le> 100 \<and> 10 dvd p"
        by simp_all
      have mono: "last_perc_sent d \<le> last_perc_sent d1"
        using rounded_percent_mono [of "bytes_written (flash_ctx d)"
            "bytes_written (flash_ctx d1)" T] ub lp Cons.prems(3) by simp
      have le1: "unat (bytes_written (flash_ctx d1)) \<le> unat T" using ub fits by simp
      note bd = rounded_percent_bounds [OF assms(1) le1]
      have t: "snd (snd (http_deliver s (st # rest) d)) = t1 @ t2"
        using k na h2 by (simp add: Chunk)
      show ?thesis
        unfolding t using ih mono pr lp bd by (auto split: if_splits)
    qed
  qed
qed


lemma few_steps_of_ten:
  fixes xs :: "int list"
  assumes "sorted_wrt (<) xs" and "\<forall>x \<in> set xs. 0 < x \<and> x \<le> 100 \<and> 10 dvd x"
  shows "length xs \<le> 10"
proof -
  from assms(1) have "distinct xs" by (simp add: strict_sorted_iff)
  then have "length xs = card (set xs)" by (simp add: distinct_card)
  also have "set xs \<subseteq> (\<lambda>k. 10 * k) ` {1 .. 10 :: int}"
  proof
    fix x assume x: "x \<in> set xs"
    with assms(2) obtain k where k: "x = 10 * k" by (auto elim: dvdE)
    with x assms(2) have "1 \<le> k" "k \<le> 10" by auto
    with k show "x \<in> (\<lambda>k. 10 * k) ` {1 .. 10 :: int}" by simp
  qed
  then have "card (set xs) \<le> card ((\<lambda>k. 10 * k) ` {1 .. 10 :: int})"
    by (intro card_mono) simp_all
  also have "\<dots> \<le> card {1 .. 10 :: int}" by (rule card_image_le) simp
  also have "\<dots> = 10" by simp
  finally show ?thesis .
qed

lemma cbk_multiple_of_ten:
  "\<forall>p \<in> set (downloading_progress
               (snd (snd (http_download_payload_cbk sock_id chunk ud w d)))). 10 dvd p"
  by (auto simp: http_download_payload_cbk_def Let_def pub_ota_event_def rounded_multiple
      split: option.splits)

section \<open>Boot-time reconciliation\<close>

text \<open>
  Claim C6. When the settings load succeeds with a 36-character request id and state
  REBOOT, the swap type is NONE, the running image is not confirmed and
  \<open>boot_write_img_confirmed\<close> does not fail, \<open>edgehog_ota_init\<close> confirms the image,
  publishes Success for that request id, and then clears the record: it deletes
  \<open>ota/req_id\<close> and saves \<open>ota/state = IDLE\<close>. These are all its actions, in this order.
\<close>

theorem ota_init_success:
  assumes "edgehog_dev"
    and "load_res env = EDGEHOG_RESULT_OK"
    and "length (ota_settings.uuid (loaded env)) = 36"
    and "ota_state (loaded env) = OTA_STATE_REBOOT"
    and "swap_type env = BOOT_SWAP_TYPE_NONE"
    and "\<not> img_confirmed env"
    and "0 \<le> confirm_ret env"
  shows "snd (edgehog_ota_init edgehog_dev env d) =
     [SettingsLoad ''ota'', McubootSwapType, BootIsImgConfirmed, BootWriteImgConfirmed,
      Publish \<lparr>requestUUID = Some (ota_settings.uuid (loaded env)), status = ''Success'',
               statusProgress = 0, statusCode = [], message = []\<rparr>,
      SettingsDelete ''ota'' ''req_id'',
      SettingsSave ''ota'' ''state'' (U8 OTA_STATE_IDLE)]"
  using assms by (simp add: edgehog_ota_init_def ota_init_end_def pub_ota_event_def)

theorem ota_init_success_witness:
  "load_res boot_ok_env = EDGEHOG_RESULT_OK
   \<and> length (ota_settings.uuid (loaded boot_ok_env)) = 36
   \<and> ota_state (loaded boot_ok_env) = OTA_STATE_REBOOT
   \<and> swap_type boot_ok_env = BOOT_SWAP_TYPE_NONE
   \<and> \<not> img_confirmed boot_ok_env
   \<and> 0 \<le> confirm_ret boot_ok_env
   \<and> snd (edgehog_ota_init True boot_ok_env zeroed_thread_data) =
     [SettingsLoad ''ota'', McubootSwapType, BootIsImgConfirmed, BootWriteImgConfirmed,
      Publish \<lparr>requestUUID = Some ''11111111-1111-1111-1111-111111111111'',
               status = ''Success'', statusProgress = 0, statusCode = [], message = []\<rparr>,
      SettingsDelete ''ota'' ''req_id'',
      SettingsSave ''ota'' ''state'' (U8 OTA_STATE_IDLE)]"
  using ota_init_success [of True boot_ok_env zeroed_thread_data]
  by (simp add: boot_ok_env_def)

text \<open>
  Claim C9. With a device handle, whenever the settings load succeeds the run ends by
  deleting \<open>ota/req_id\<close> and saving \<open>ota/state = IDLE\<close>, on every branch (also when no
  36-character request id was found), and these two are its only writes to the
  settings. When the load fails, the run performs no write to the settings at all.
\<close>

theorem ota_init_clears_after_load:
  assumes "edgehog_dev"
  shows "(load_res env = EDGEHOG_RESULT_OK \<longrightarrow>
           (\<exists>pre. snd (edgehog_ota_init edgehog_dev env d) =
                   pre @ [SettingsDelete ''ota'' ''req_id'',
                          SettingsSave ''ota'' ''state'' (U8 OTA_STATE_IDLE)]
                 \<and> (\<forall>a \<in> set pre. \<not> is_settings_write a)))
       \<and> (load_res env \<noteq> EDGEHOG_RESULT_OK \<longrightarrow>
           (\<forall>a \<in> set (snd (edgehog_ota_init edgehog_dev env d)). \<not> is_settings_write a))"
  using assms by (simp add: edgehog_ota_init_def ota_init_end_def pub_ota_event_def)

theorem ota_init_clears_after_load_witness:
  "load_res boot_empty_env = EDGEHOG_RESULT_OK
   \<and> (\<exists>pre. snd (edgehog_ota_init True boot_empty_env zeroed_thread_data) =
              pre @ [SettingsDelete ''ota'' ''req_id'',
                     SettingsSave ''ota'' ''state'' (U8 OTA_STATE_IDLE)]
            \<and> list_all (\<lambda>a. \<not> is_settings_write a) pre)
   \<and> snd (edgehog_ota_init True boot_empty_env zeroed_thread_data) =
       [SettingsLoad ''ota'', SettingsDelete ''ota'' ''req_id'',
        SettingsSave ''ota'' ''state'' (U8 OTA_STATE_IDLE)]"
  using ota_init_clears_after_load [of True boot_empty_env zeroed_thread_data]
  by (simp add: boot_empty_env_def edgehog_ota_init_def ota_init_end_def list_all_iff)

section \<open>The worker: flash preparation, attempts, deployment\<close>

text \<open>
  Claim C2 does not hold of the code. \<open>perform_ota\<close> erases the secondary bank and
  initialises the flash writer before the loop; an iteration of the loop goes from its
  Downloading event straight to the download. In the flaky run the first download is
  reset after 256 of 1024 bytes. The second download delivers all 1024 bytes and returns
  OK, but the flash writer goes on counting from 256: the byte count ends at 1280, which
  is not the image size, and this attempt and every later one end in \<open>NETWORK_ERROR\<close>.
  The whole run makes five downloads, one erase and one init.
\<close>

theorem second_attempt_no_erase:
  "length (filter is_http_download (snd (snd (perform_ota flaky_env worker_start)))) = 5
   \<and> filter is_flash_prepare (snd (snd (perform_ota flaky_env worker_start))) =
       [BootEraseImgBank, FlashImgInit]
   \<and> take 11 (snd (snd (perform_ota flaky_env worker_start))) =
  [BootEraseImgBank, FlashImgInit,
   SettingsSave ''ota'' ''req_id'' (Buf (Some uuid_a) 37),
   Publish \<lparr>requestUUID = Some uuid_a, status = ''Downloading'', statusProgress = 0,
            statusCode = [], message = []\<rparr>,
   HttpDownload (Some url_a) 60000,
   FlashImgBufferedWrite 256 False,
   Publish \<lparr>requestUUID = Some uuid_a, status = ''Downloading'', statusProgress = 20,
            statusCode = [], message = []\<rparr>,
   Sleep 0,
   Publish \<lparr>requestUUID = Some uuid_a, status = ''Error'', statusProgress = 0,
            statusCode = ''ErrorNetwork'', message = []\<rparr>,
   Publish \<lparr>requestUUID = Some uuid_a, status = ''Downloading'', statusProgress = 0,
            statusCode = [], message = []\<rparr>,
   HttpDownload (Some url_a) 60000]
   \<and> dl_result (attempts flaky_env 1) = EDGEHOG_RESULT_OK
   \<and> list_all (declares 1024) (steps (attempts flaky_env 1))
   \<and> sum_list (map step_bytes (steps (attempts flaky_env 1))) = 1024
   \<and> fst (perform_ota flaky_env worker_start) = Some EDGEHOG_RESULT_NETWORK_ERROR
   \<and> flash_img_bytes_written (flash_ctx (fst (snd (perform_ota flaky_env worker_start)))) = 1280
   \<and> image_size (fst (snd (perform_ota flaky_env worker_start))) = 1024"
  by (simp add: eval_defs flaky_env_def worker_start_def
      flaky_attempts_def failed_download_def full_download_def no_cancels_def)

text \<open>
  What the code does instead: the erase and the init are the first two actions of
  \<open>perform_ota\<close> and no later action of the run is an erase or an init. A failing
  erase makes \<open>perform_ota\<close> itself return \<open>OTA_ERASE_SECOND_SLOT_ERROR\<close> with no
  further action, a failing init makes it return \<open>OTA_INIT_FLASH_ERROR\<close>.
\<close>

lemma flash_prepared_once:
  "(erase_err env \<noteq> 0 \<longrightarrow>
      perform_ota env d = (Some EDGEHOG_RESULT_OTA_ERASE_SECOND_SLOT_ERROR, d, [BootEraseImgBank]))
   \<and> (erase_err env = 0 \<and> flash_init_err env \<noteq> 0 \<longrightarrow>
      perform_ota env d =
        (Some EDGEHOG_RESULT_OTA_INIT_FLASH_ERROR, d, [BootEraseImgBank, FlashImgInit]))
   \<and> (erase_err env = 0 \<and> flash_init_err env = 0 \<longrightarrow>
      (\<exists>rest. snd (snd (perform_ota env d)) = [BootEraseImgBank, FlashImgInit] @ rest
            \<and> (\<forall>a \<in> set rest. \<not> is_flash_prepare a)))"
proof (intro conjI impI)
  assume "erase_err env \<noteq> 0"
  then show "perform_ota env d =
      (Some EDGEHOG_RESULT_OTA_ERASE_SECOND_SLOT_ERROR, d, [BootEraseImgBank])"
    by (simp add: perform_ota_def)
next
  assume "erase_err env = 0 \<and> flash_init_err env \<noteq> 0"
  then show "perform_ota env d =
      (Some EDGEHOG_RESULT_OTA_INIT_FLASH_ERROR, d, [BootEraseImgBank, FlashImgInit])"
    by (simp add: perform_ota_def flash_img_init_def Let_def)
next
  assume ok: "erase_err env = 0 \<and> flash_init_err env = 0"
  obtain r d' t where p: "perform_ota env d = (r, d', t)"
    by (cases "perform_ota env d")
  from perform_ota_cases [OF p] ok loop_plain
  have "\<exists>rest. t = [BootEraseImgBank, FlashImgInit] @ rest
          \<and> (\<forall>a \<in> set rest. \<not> is_flash_prepare a)"
    by fastforce
  with p show "\<exists>rest. snd (snd (perform_ota env d)) = [BootEraseImgBank, FlashImgInit] @ rest
            \<and> (\<forall>a \<in> set rest. \<not> is_flash_prepare a)"
    by simp
qed

lemma flash_prepared_once_witness:
  "erase_err erase_fail_env \<noteq> 0
   \<and> perform_ota erase_fail_env worker_start =
       (Some EDGEHOG_RESULT_OTA_ERASE_SECOND_SLOT_ERROR, worker_start, [BootEraseImgBank])
   \<and> erase_err init_fail_env = 0 \<and> flash_init_err init_fail_env \<noteq> 0
   \<and> perform_ota init_fail_env worker_start =
       (Some EDGEHOG_RESULT_OTA_INIT_FLASH_ERROR, worker_start,
        [BootEraseImgBank, FlashImgInit])
   \<and> erase_err flaky_env = 0 \<and> flash_init_err flaky_env = 0
   \<and> (\<exists>rest. snd (snd (perform_ota flaky_env worker_start)) =
               [BootEraseImgBank, FlashImgInit] @ rest
            \<and> list_all (\<lambda>a. \<not> is_flash_prepare a) rest)"
  using flash_prepared_once [of erase_fail_env worker_start]
    flash_prepared_once [of init_fail_env worker_start]
    flash_prepared_once [of flaky_env worker_start]
  by (simp add: erase_fail_env_def init_fail_env_def flaky_env_def list_all_iff)

text \<open>
  Claim C3 does not hold of the code. The flash writer is initialised once, before the
  loop, and the sink computes the percentage from the writer's byte count. In a retry
  after a partial download that count goes on from where the failed attempt left it: in
  the flaky run the first attempt writes 256 of 1024 bytes, and the second attempt, which
  delivers the 1024 bytes of the image, reports 70 and then 120 percent and ends in
  \<open>NETWORK_ERROR\<close> like every attempt of the run.
\<close>

theorem retry_progress_exceeds_100:
  "downloading_progress (snd (snd (perform_ota flaky_env worker_start))) =
     [0, 20, 0, 70, 120, 0, 0, 0]
   \<and> attempt_results flaky_env 0 worker_start =
     [Some EDGEHOG_RESULT_NETWORK_ERROR, Some EDGEHOG_RESULT_NETWORK_ERROR,
      Some EDGEHOG_RESULT_NETWORK_ERROR, Some EDGEHOG_RESULT_NETWORK_ERROR,
      Some EDGEHOG_RESULT_NETWORK_ERROR]"
  by (simp add: eval_defs attempt_results.simps flaky_env_def worker_start_def
      flaky_attempts_def failed_download_def full_download_def no_cancels_def)

text \<open>
  What does hold: every \<open>statusProgress\<close> that the sink publishes is a multiple of 10.
  In an attempt that starts with a byte count of 0 and \<open>last_perc_sent = 0\<close> (the
  first attempt of an update), whose chunks all declare the same non-zero total size
  \<open>T\<close> with \<open>100 * T\<close> below \<open>2 ^ 32\<close> and together deliver at most \<open>T\<close> bytes, the
  Downloading values of the iteration (the loop's 0 and the sink's) are multiples of 10
  within 0 and 100, non-decreasing, and at most 11.
\<close>

lemma first_attempt_progress:
  assumes "T \<noteq> 0" and "100 * unat T < 2 ^ 32"
    and "list_all (declares T) (steps denv)"
    and "sum_list (map step_bytes (steps denv)) \<le> unat T"
    and "bytes_written (flash_ctx d) = 0" and "last_perc_sent d = 0"
    and "ps = downloading_progress
                (pub_ota_event (ota_request.uuid (ota_request d)) OTA_EVENT_DOWNLOADING 0
                   EDGEHOG_RESULT_OK []
                 # snd (snd (perform_ota_attempt denv d)))"
  shows "(\<forall>p \<in> set ps. 10 dvd p \<and> 0 \<le> p \<and> p \<le> 100) \<and> sorted ps \<and> length ps \<le> 11
       \<and> (\<forall>sock_id chunk ud w d'.
            \<forall>p \<in> set (downloading_progress
                         (snd (snd (http_download_payload_cbk sock_id chunk ud w d')))).
              10 dvd p)"
proof -
  let ?ps' = "downloading_progress (snd (snd (http_deliver (sock denv) (steps denv) d)))"
  obtain ok d1 t1 where h: "http_deliver (sock denv) (steps denv) d = (ok, d1, t1)"
    by (cases "http_deliver (sock denv) (steps denv) d")
  have "snd (snd (perform_ota_attempt denv d)) =
          HttpDownload (download_url (ota_request d)) OTA_REQ_TIMEOUT_MS # t1"
    using h by (simp add: perform_ota_attempt_def edgehog_http_download_def Let_def
        split: option.splits)
  with assms(7) h have ps: "ps = 0 # ?ps'"
    by (simp add: pub_ota_event_def)
  have b: "unat (bytes_written (flash_ctx d)) + sum_list (map step_bytes (steps denv))
             \<le> unat T"
    using assms(4,5) by simp
  have l: "last_perc_sent d = rounded_percent (bytes_written (flash_ctx d)) T"
    using assms(5,6) by (simp add: rounded_percent_def)
  from deliver_progress [OF assms(1,2,3) b l, of "sock denv"] assms(6)
  have srt: "sorted_wrt (<) ?ps'"
    and rng: "\<forall>p \<in> set ?ps'. 0 < p \<and> p \<le> 100 \<and> 10 dvd p"
    by simp_all
  from few_steps_of_ten [OF srt rng] have len: "length ?ps' \<le> 10" .
  from srt have "sorted ?ps'" by (simp add: strict_sorted_iff)
  with rng have "sorted (0 # ?ps')" by (auto simp: less_imp_le)
  with ps rng len cbk_multiple_of_ten show ?thesis by auto
qed

lemma first_attempt_progress_witness:
  "(1024 :: 32 word) \<noteq> 0 \<and> 100 * unat (1024 :: 32 word) < 2 ^ 32
   \<and> list_all (declares 1024) (steps full_download)
   \<and> sum_list (map step_bytes (steps full_download)) \<le> unat (1024 :: 32 word)
   \<and> bytes_written (flash_ctx worker_start) = 0 \<and> last_perc_sent worker_start = 0
   \<and> downloading_progress
        (pub_ota_event (ota_request.uuid (ota_request worker_start)) OTA_EVENT_DOWNLOADING 0
           EDGEHOG_RESULT_OK []
         # snd (snd (perform_ota_attempt full_download worker_start))) = [0, 50, 100]
   \<and> sorted [0 :: int, 50, 100] \<and> length [0 :: int, 50, 100] \<le> 11"
proof -
  have h: "(1024 :: 32 word) \<noteq> 0" "100 * unat (1024 :: 32 word) < 2 ^ 32"
    "list_all (declares 1024) (steps full_download)"
    "sum_list (map step_bytes (steps full_download)) \<le> unat (1024 :: 32 word)"
    "bytes_written (flash_ctx worker_start) = 0" "last_perc_sent worker_start = 0"
    by (simp_all add: full_download_def worker_start_def)
  have e: "downloading_progress
        (pub_ota_event (ota_request.uuid (ota_request worker_start)) OTA_EVENT_DOWNLOADING 0
           EDGEHOG_RESULT_OK []
         # snd (snd (perform_ota_attempt full_download worker_start))) = [0, 50, 100]"
    by (simp add: eval_defs full_download_def worker_start_def)
  from first_attempt_progress [OF h e [symmetric]] h e show ?thesis
    by simp
qed

text \<open>
  Claim C4. Once the downloader has returned, \<open>perform_ota_attempt\<close> decides in this
  order: a cleared run-bit gives \<open>OTA_CANCELED\<close> whatever the downloader returned; else
  a failed download gives its error; else a byte count that is 0 or differs from
  \<open>image_size\<close> gives \<open>NETWORK_ERROR\<close>; else OK. On OK the loop returns OK at once,
  with no sleep and no Error event.
\<close>

theorem attempt_result_order:
  assumes "edgehog_http_download (download_url (ota_request d)) OTA_REQ_TIMEOUT_MS env d
             = (Some res, d1, t1)"
  shows "fst (perform_ota_attempt env d) =
           Some (if \<not> atomic_test_bit (ota_run_state d1) OTA_STATE_RUN_BIT
                   then EDGEHOG_RESULT_OTA_CANCELED
                 else if res \<noteq> EDGEHOG_RESULT_OK then res
                 else if flash_img_bytes_written (flash_ctx d1) = 0
                      \<or> flash_img_bytes_written (flash_ctx d1) \<noteq> image_size d1
                   then EDGEHOG_RESULT_NETWORK_ERROR
                 else EDGEHOG_RESULT_OK)
       \<and> (\<forall>e i r0. i < MAX_OTA_RETRY \<and> attempts e i = env
             \<and> fst (perform_ota_attempt env d) = Some EDGEHOG_RESULT_OK \<longrightarrow>
             fst (perform_ota_loop e i r0 d) = Some EDGEHOG_RESULT_OK
             \<and> filter is_backoff (snd (snd (perform_ota_loop e i r0 d))) = [])"
proof
  show "fst (perform_ota_attempt env d) =
           Some (if \<not> atomic_test_bit (ota_run_state d1) OTA_STATE_RUN_BIT
                   then EDGEHOG_RESULT_OTA_CANCELED
                 else if res \<noteq> EDGEHOG_RESULT_OK then res
                 else if flash_img_bytes_written (flash_ctx d1) = 0
                      \<or> flash_img_bytes_written (flash_ctx d1) \<noteq> image_size d1
                   then EDGEHOG_RESULT_NETWORK_ERROR
                 else EDGEHOG_RESULT_OK)"
    using assms by (simp add: perform_ota_attempt_def Let_def)
next
  show "\<forall>e i r0. i < MAX_OTA_RETRY \<and> attempts e i = env
             \<and> fst (perform_ota_attempt env d) = Some EDGEHOG_RESULT_OK \<longrightarrow>
             fst (perform_ota_loop e i r0 d) = Some EDGEHOG_RESULT_OK
             \<and> filter is_backoff (snd (snd (perform_ota_loop e i r0 d))) = []"
  proof (intro allI impI)
    fix e :: ota_env and i :: nat and r0 :: edgehog_result
    assume h: "i < MAX_OTA_RETRY \<and> attempts e i = env
             \<and> fst (perform_ota_attempt env d) = Some EDGEHOG_RESULT_OK"
    obtain d2 t2 where a: "perform_ota_attempt (attempts e i) d = (Some EDGEHOG_RESULT_OK, d2, t2)"
      using h by (cases "perform_ota_attempt env d") auto
    from h have i: "i < MAX_OTA_RETRY" by simp
    from loop_done [OF i a, of r0] filter_backoff_attempt [OF attempt_actions [OF a]]
    show "fst (perform_ota_loop e i r0 d) = Some EDGEHOG_RESULT_OK
             \<and> filter is_backoff (snd (snd (perform_ota_loop e i r0 d))) = []"
      by (simp add: pub_ota_event_def)
  qed
qed

theorem attempt_result_order_witness:
  "edgehog_http_download (download_url (ota_request worker_start)) OTA_REQ_TIMEOUT_MS
     full_download worker_start =
     (Some EDGEHOG_RESULT_OK, worker_downloaded,
      [HttpDownload (Some url_a) 60000,
       FlashImgBufferedWrite 512 False,
       Publish \<lparr>requestUUID = Some uuid_a, status = ''Downloading'', statusProgress = 50,
                statusCode = [], message = []\<rparr>,
       FlashImgBufferedWrite 512 True,
       Publish \<lparr>requestUUID = Some uuid_a, status = ''Downloading'', statusProgress = 100,
                statusCode = [], message = []\<rparr>])
   \<and> fst (perform_ota_attempt full_download worker_start) = Some EDGEHOG_RESULT_OK
   \<and> fst (perform_ota_loop happy_env 0 EDGEHOG_RESULT_OK worker_start) =
       Some EDGEHOG_RESULT_OK
   \<and> filter is_backoff
       (snd (snd (perform_ota_loop happy_env 0 EDGEHOG_RESULT_OK worker_start))) = []"
proof -
  have h: "edgehog_http_download (download_url (ota_request worker_start)) OTA_REQ_TIMEOUT_MS
     full_download worker_start =
     (Some EDGEHOG_RESULT_OK, worker_downloaded,
      [HttpDownload (Some url_a) 60000,
       FlashImgBufferedWrite 512 False,
       Publish \<lparr>requestUUID = Some uuid_a, status = ''Downloading'', statusProgress = 50,
                statusCode = [], message = []\<rparr>,
       FlashImgBufferedWrite 512 True,
       Publish \<lparr>requestUUID = Some uuid_a, status = ''Downloading'', statusProgress = 100,
                statusCode = [], message = []\<rparr>])"
    by (simp add: eval_defs full_download_def worker_start_def worker_downloaded_def)
  have a: "attempts happy_env 0 = full_download"
    by (simp add: happy_env_def)
  from attempt_result_order [OF h] a h show ?thesis
    by (simp add: worker_downloaded_def worker_start_def atomic_test_bit_def
        flash_img_bytes_written_def)
qed

text \<open>
  Claim C5. Whenever \<open>perform_ota\<close> succeeds, the worker saves \<open>ota/state = REBOOT\<close>
  before it reads the secondary bank header and before it requests the upgrade: the save
  comes right before the header read, and nothing before the save is one of these two
  calls.
\<close>

theorem reboot_state_saved_first:
  assumes "thread_init_res env = EDGEHOG_RESULT_OK"
    and "fst (perform_ota (ota env) d) = Some EDGEHOG_RESULT_OK"
  shows "\<exists>pre post. snd (ota_thread_entry_point True env d) =
            pre @ [SettingsSave ''ota'' ''state'' (U8 OTA_STATE_REBOOT), BootReadBankHeader] @ post
          \<and> (\<forall>a \<in> set pre. \<not> is_boot_commit a)"
proof -
  obtain d1 tp where p: "perform_ota (ota env) d = (Some EDGEHOG_RESULT_OK, d1, tp)"
    using assms(2) by (cases "perform_ota (ota env) d") auto
  let ?pre = "[pub_ota_event (ota_request.uuid (ota_request d)) OTA_EVENT_ACKNOWLEDGED 0
                 EDGEHOG_RESULT_OK [],
               SettingsInit,
               SettingsSave OTA_KEY OTA_STATE_KEY (U8 OTA_STATE_IN_PROGRESS)] @ tp
              @ [pub_ota_event (ota_request.uuid (ota_request d)) OTA_EVENT_DEPLOYING 0
                   EDGEHOG_RESULT_OK []]"
  have "\<exists>post. snd (ota_thread_entry_point True env d) =
          ?pre @ [SettingsSave ''ota'' ''state'' (U8 OTA_STATE_REBOOT), BootReadBankHeader] @ post"
    using assms(1) p
    by (auto simp: ota_thread_entry_point_def Let_def selfdestruct_def split: prod.splits)
  moreover have "\<forall>a \<in> set ?pre. \<not> is_boot_commit a"
    using perform_ota_no_commit [OF p] by (auto simp: pub_ota_event_def)
  ultimately show ?thesis by blast
qed

theorem reboot_state_saved_first_witness:
  "thread_init_res happy_thread_env = EDGEHOG_RESULT_OK
   \<and> fst (perform_ota (ota happy_thread_env) worker_start) = Some EDGEHOG_RESULT_OK
   \<and> snd (ota_thread_entry_point True happy_thread_env worker_start) =
      [Publish \<lparr>requestUUID = Some uuid_a, status = ''Acknowledged'', statusProgress = 0,
                statusCode = [], message = []\<rparr>,
       SettingsInit,
       SettingsSave ''ota'' ''state'' (U8 OTA_STATE_IN_PROGRESS),
       BootEraseImgBank, FlashImgInit,
       SettingsSave ''ota'' ''req_id'' (Buf (Some uuid_a) 37),
       Publish \<lparr>requestUUID = Some uuid_a, status = ''Downloading'', statusProgress = 0,
                statusCode = [], message = []\<rparr>,
       HttpDownload (Some url_a) 60000,
       FlashImgBufferedWrite 512 False,
       Publish \<lparr>requestUUID = Some uuid_a, status = ''Downloading'', statusProgress = 50,
                statusCode = [], message = []\<rparr>,
       FlashImgBufferedWrite 512 True,
       Publish \<lparr>requestUUID = Some uuid_a, status = ''Downloading'', statusProgress = 100,
                statusCode = [], message = []\<rparr>,
       Publish \<lparr>requestUUID = Some uuid_a, status = ''Deploying'', statusProgress = 0,
                statusCode = [], message = []\<rparr>,
       SettingsSave ''ota'' ''state'' (U8 OTA_STATE_REBOOT),
       BootReadBankHeader, BootRequestUpgrade,
       Publish \<lparr>requestUUID = Some uuid_a, status = ''Deployed'', statusProgress = 0,
                statusCode = [], message = []\<rparr>,
       Publish \<lparr>requestUUID = Some uuid_a, status = ''Rebooting'', statusProgress = 0,
                statusCode = [], message = []\<rparr>,
       Sleep 5000, SysReboot]"
  using reboot_state_saved_first [of happy_thread_env worker_start]
  by (simp add: eval_defs happy_thread_env_def happy_env_def full_download_def
      worker_start_def no_cancels_def)

text \<open>
  Claim C7. With the flash prepared and the request id saved, \<open>perform_ota\<close> makes at
  least one and at most five attempts, one download each. Every attempt but the last
  returned an error other than a cancellation, and after each such attempt the worker
  sleeps \<open>attempt_index * 2000\<close> ms and then publishes an Error event with that attempt's
  status code; these are all its sleeps and Error events, so an attempt that returns OK
  or \<open>OTA_CANCELED\<close> ends the loop with neither. Fewer than five attempts means the
  last one was not such an error. The loop's result is the last attempt's result, so
  after five failed attempts it is the last error; any result other than OK makes the
  worker publish Failure with that result's status code as its last event.
\<close>

theorem retry_policy:
  assumes "erase_err env = 0" and "flash_init_err env = 0"
    and "save_req_id_res env = EDGEHOG_RESULT_OK"
    and "perform_ota env d = (r, d', t)"
    and "rs = attempt_results env 0 (d\<lparr>flash_ctx := flash_img_init 0 (flash_ctx d)\<rparr>)"
  shows "1 \<le> length rs \<and> length rs \<le> MAX_OTA_RETRY
       \<and> length (filter is_http_download t) = length rs
       \<and> filter is_backoff t = backoff_trace (ota_request.uuid (ota_request d)) 0 rs
       \<and> (\<forall>x \<in> set (butlast rs). retried x)
       \<and> (length rs < MAX_OTA_RETRY \<longrightarrow> \<not> retried (last rs))
       \<and> r = last rs
       \<and> (\<forall>tenv res. thread_init_res tenv = EDGEHOG_RESULT_OK \<and> ota tenv = env
              \<and> r = Some res \<and> res \<noteq> EDGEHOG_RESULT_OK \<longrightarrow>
            (\<exists>pre. snd (ota_thread_entry_point True tenv d) =
               pre @ [Publish \<lparr>requestUUID = ota_request.uuid (ota_request d),
                               status = ''Failure'', statusProgress = 0,
                               statusCode = status_code_of res, message = []\<rparr>,
                      SettingsSave ''ota'' ''state'' (U8 OTA_STATE_IDLE),
                      SettingsDelete ''ota'' ''req_id'',
                      SettingsSave ''ota'' ''state'' (U8 OTA_STATE_IDLE)]))"
proof -
  let ?d1 = "d\<lparr>flash_ctx := flash_img_init 0 (flash_ctx d)\<rparr>"
  from perform_ota_cases [OF assms(4)] assms(1-3)
  obtain tl where lp: "perform_ota_loop env 0 EDGEHOG_RESULT_OK ?d1 = (r, d', tl)"
    and t: "t = [BootEraseImgBank, FlashImgInit,
                 SettingsSave OTA_KEY OTA_REQUEST_ID_KEY
                   (Buf (ota_request.uuid (ota_request d)) 37)] @ tl"
    by auto
  note pol = loop_policy [OF _ lp, simplified, folded assms(5)]
  have tail: "\<forall>tenv res. thread_init_res tenv = EDGEHOG_RESULT_OK \<and> ota tenv = env
              \<and> r = Some res \<and> res \<noteq> EDGEHOG_RESULT_OK \<longrightarrow>
            (\<exists>pre. snd (ota_thread_entry_point True tenv d) =
               pre @ [Publish \<lparr>requestUUID = ota_request.uuid (ota_request d),
                               status = ''Failure'', statusProgress = 0,
                               statusCode = status_code_of res, message = []\<rparr>,
                      SettingsSave ''ota'' ''state'' (U8 OTA_STATE_IDLE),
                      SettingsDelete ''ota'' ''req_id'',
                      SettingsSave ''ota'' ''state'' (U8 OTA_STATE_IDLE)])"
  proof (intro allI impI)
    fix tenv :: thread_env and res :: edgehog_result
    assume h: "thread_init_res tenv = EDGEHOG_RESULT_OK \<and> ota tenv = env
              \<and> r = Some res \<and> res \<noteq> EDGEHOG_RESULT_OK"
    with assms(4) have p: "perform_ota (ota tenv) d = (Some res, d', t)" by simp
    from thread_failure_tail [OF _ p] h
    show "\<exists>pre. snd (ota_thread_entry_point True tenv d) =
               pre @ [Publish \<lparr>requestUUID = ota_request.uuid (ota_request d),
                               status = ''Failure'', statusProgress = 0,
                               statusCode = status_code_of res, message = []\<rparr>,
                      SettingsSave ''ota'' ''state'' (U8 OTA_STATE_IDLE),
                      SettingsDelete ''ota'' ''req_id'',
                      SettingsSave ''ota'' ''state'' (U8 OTA_STATE_IDLE)]"
      by (metis append.assoc snd_conv)
  qed
  from pol t tail show ?thesis by (auto simp: Suc_le_eq)
qed


theorem retry_policy_witness:
  "erase_err exhausted_env = 0 \<and> flash_init_err exhausted_env = 0
   \<and> save_req_id_res exhausted_env = EDGEHOG_RESULT_OK
   \<and> attempt_results exhausted_env 0
        (worker_start\<lparr>flash_ctx := flash_img_init 0 (flash_ctx worker_start)\<rparr>) =
       [Some EDGEHOG_RESULT_NETWORK_ERROR, Some EDGEHOG_RESULT_NETWORK_ERROR,
        Some EDGEHOG_RESULT_NETWORK_ERROR, Some EDGEHOG_RESULT_NETWORK_ERROR,
        Some EDGEHOG_RESULT_NETWORK_ERROR]
   \<and> fst (perform_ota exhausted_env worker_start) = Some EDGEHOG_RESULT_NETWORK_ERROR
   \<and> filter is_backoff (snd (snd (perform_ota exhausted_env worker_start))) =
       [Sleep 0,
        Publish \<lparr>requestUUID = Some uuid_a, status = ''Error'', statusProgress = 0,
                 statusCode = ''ErrorNetwork'', message = []\<rparr>,
        Sleep 2000,
        Publish \<lparr>requestUUID = Some uuid_a, status = ''Error'', statusProgress = 0,
                 statusCode = ''ErrorNetwork'', message = []\<rparr>,
        Sleep 4000,
        Publish \<lparr>requestUUID = Some uuid_a, status = ''Error'', statusProgress = 0,
                 statusCode = ''ErrorNetwork'', message = []\<rparr>,
        Sleep 6000,
        Publish \<lparr>requestUUID = Some uuid_a, status = ''Error'', statusProgress = 0,
                 statusCode = ''ErrorNetwork'', message = []\<rparr>,
        Sleep 8000,
        Publish \<lparr>requestUUID = Some uuid_a, status = ''Error'', statusProgress = 0,
                 statusCode = ''ErrorNetwork'', message = []\<rparr>]
   \<and> length (filter is_http_download (snd (snd (perform_ota exhausted_env worker_start)))) = 5
   \<and> drop 26 (snd (ota_thread_entry_point True exhausted_thread_env worker_start)) =
       [Publish \<lparr>requestUUID = Some uuid_a, status = ''Failure'', statusProgress = 0,
                 statusCode = ''ErrorNetwork'', message = []\<rparr>,
        SettingsSave ''ota'' ''state'' (U8 OTA_STATE_IDLE),
        SettingsDelete ''ota'' ''req_id'',
        SettingsSave ''ota'' ''state'' (U8 OTA_STATE_IDLE)]"
proof -
  have rs: "attempt_results exhausted_env 0
        (worker_start\<lparr>flash_ctx := flash_img_init 0 (flash_ctx worker_start)\<rparr>) =
       [Some EDGEHOG_RESULT_NETWORK_ERROR, Some EDGEHOG_RESULT_NETWORK_ERROR,
        Some EDGEHOG_RESULT_NETWORK_ERROR, Some EDGEHOG_RESULT_NETWORK_ERROR,
        Some EDGEHOG_RESULT_NETWORK_ERROR]"
    by (simp add: attempt_results.simps eval_defs exhausted_env_def failed_download_def
        worker_start_def no_cancels_def)
  obtain r d' t where p: "perform_ota exhausted_env worker_start = (r, d', t)"
    by (cases "perform_ota exhausted_env worker_start")
  have e: "erase_err exhausted_env = 0" "flash_init_err exhausted_env = 0"
    "save_req_id_res exhausted_env = EDGEHOG_RESULT_OK"
    by (simp_all add: exhausted_env_def)
  have u: "ota_request.uuid (ota_request worker_start) = Some uuid_a"
    by (simp add: worker_start_def)
  have th: "drop 26 (snd (ota_thread_entry_point True exhausted_thread_env worker_start)) =
       [Publish \<lparr>requestUUID = Some uuid_a, status = ''Failure'', statusProgress = 0,
                 statusCode = ''ErrorNetwork'', message = []\<rparr>,
        SettingsSave ''ota'' ''state'' (U8 OTA_STATE_IDLE),
        SettingsDelete ''ota'' ''req_id'',
        SettingsSave ''ota'' ''state'' (U8 OTA_STATE_IDLE)]"
    by (simp add: eval_defs exhausted_thread_env_def exhausted_env_def failed_download_def
        worker_start_def no_cancels_def)
  note pol = retry_policy [OF e p rs [symmetric]]
  from pol have "fst (perform_ota exhausted_env worker_start) = Some EDGEHOG_RESULT_NETWORK_ERROR"
    using p by simp
  moreover from pol have "length (filter is_http_download (snd (snd (perform_ota exhausted_env worker_start)))) = 5"
    using p by simp
  moreover from pol have "filter is_backoff (snd (snd (perform_ota exhausted_env worker_start))) =
       [Sleep 0,
        Publish \<lparr>requestUUID = Some uuid_a, status = ''Error'', statusProgress = 0,
                 statusCode = ''ErrorNetwork'', message = []\<rparr>,
        Sleep 2000,
        Publish \<lparr>requestUUID = Some uuid_a, status = ''Error'', statusProgress = 0,
                 statusCode = ''ErrorNetwork'', message = []\<rparr>,
        Sleep 4000,
        Publish \<lparr>requestUUID = Some uuid_a, status = ''Error'', statusProgress = 0,
                 statusCode = ''ErrorNetwork'', message = []\<rparr>,
        Sleep 6000,
        Publish \<lparr>requestUUID = Some uuid_a, status = ''Error'', statusProgress = 0,
                 statusCode = ''ErrorNetwork'', message = []\<rparr>,
        Sleep 8000,
        Publish \<lparr>requestUUID = Some uuid_a, status = ''Error'', statusProgress = 0,
                 statusCode = ''ErrorNetwork'', message = []\<rparr>]"
    using p u by simp
  ultimately show ?thesis using e rs th by simp
qed

section \<open>Cancellation\<close>

text \<open>
  Claim C10. When the callback finds the run-bit cleared, it aborts the socket and
  returns OK: no flash write, no event, and the thread data (with \<open>image_size\<close>,
  \<open>download_size\<close> and \<open>last_perc_sent\<close>) is as before. The same holds for the rest of
  the transfer: whatever the downloader still has to deliver from a state with the
  run-bit cleared, the thread data stays as it is, and no flash write and no Downloading
  event happens.
\<close>

theorem sink_cancelled_no_write:
  assumes "\<not> running d"
  shows "http_download_payload_cbk sock_id (Some c) True write_ret d =
           (Some EDGEHOG_RESULT_OK, d, [HttpDownloadAbort sock_id])
       \<and> fst (snd (http_deliver sock_id sts d)) = d
       \<and> filter sink_effect (snd (snd (http_deliver sock_id sts d))) = []"
  using assms deliver_not_running [OF assms, of sock_id sts]
  by (simp add: http_download_payload_cbk_def)

theorem sink_cancelled_no_write_witness:
  "\<not> running worker_cancelled
   \<and> http_download_payload_cbk 3 (Some \<lparr>chunk_size = 512, download_size = 1024,
         last_chunk = False\<rparr>) True 0 worker_cancelled =
           (Some EDGEHOG_RESULT_OK, worker_cancelled, [HttpDownloadAbort 3])
   \<and> http_deliver 3 (steps full_download) worker_cancelled =
           (True, worker_cancelled, [HttpDownloadAbort 3])"
  using sink_cancelled_no_write [of worker_cancelled 3
      "\<lparr>chunk_size = 512, download_size = 1024, last_chunk = False\<rparr>" 0 "steps full_download"]
  by (simp add: worker_cancelled_def worker_start_def atomic_test_bit_def full_download_def
      http_download_payload_cbk_def)




section \<open>Admission of an Update\<close>

text \<open>
  Claim C1 does not hold of the code. When the \<open>calloc\<close> for the uuid copy fails,
  \<open>edgehog_ota_event_update\<close> returns \<open>OUT_OF_MEMORY\<close> without publishing any event.
  When \<open>k_thread_create\<close> fails, it publishes Failure / InternalError but leaves the
  run-bit set, so the next Update is refused with UpdateAlreadyInProgress.
\<close>

theorem update_preparation_failures:
  "edgehog_ota_event_update uuid_a url_a oom_uuid_env zeroed_thread_data =
     (EDGEHOG_RESULT_OUT_OF_MEMORY, zeroed_thread_data, [])
   \<and> edgehog_ota_event_update uuid_a url_a thread_fail_env zeroed_thread_data =
     (EDGEHOG_RESULT_THREAD_CREATE_ERROR, worker_start,
      [ThreadCreate,
       Publish \<lparr>requestUUID = Some uuid_a, status = ''Failure'', statusProgress = 0,
                statusCode = ''InternalError'', message = []\<rparr>])
   \<and> running worker_start
   \<and> edgehog_ota_event_update uuid_b url_a update_ok_env worker_start =
     (EDGEHOG_RESULT_OTA_ALREADY_IN_PROGRESS, worker_start,
      [Publish \<lparr>requestUUID = Some uuid_b, status = ''Failure'', statusProgress = 0,
                statusCode = ''UpdateAlreadyInProgress'', message = []\<rparr>])"
  by (simp add: edgehog_ota_event_update_def oom_uuid_env_def thread_fail_env_def
      update_ok_env_def zeroed_thread_data_def worker_start_def atomic_test_bit_def
      atomic_test_and_set_bit_def pub_ota_event_def)


end
